theory Spec2Isabelle
  imports Complex_Main
begin

section \<open>JavaScript values\<close>

text \<open>
  A JavaScript \<^verbatim>\<open>number\<close> is modelled as a real: the finite doubles are reals.
  \<^verbatim>\<open>NaN\<close> and the infinities have no counterpart here; where the source could meet one
  (\<^verbatim>\<open>Math.min()\<close> of no arguments) the model says so with an \<open>option\<close>.

  The meters that \<open>analyzePlot\<close> derives from a drawn polygon depend on how doubles
  round, so there every subtraction, product and \<^verbatim>\<open>parseFloat\<close> is followed by
  \<open>round_double\<close>. The geometry of the 3D view is computed exactly.

  What \<^verbatim>\<open>JSON.parse\<close> returns is a value of \<open>json\<close>. An object is the list of its own
  properties; a lookup takes the first binding of a key.
\<close>

datatype json =
    JNull
  | JBool bool
  | JNumber real
  | JString string
  | JArray "json list"
  | JObject "(string \<times> json) list"

text \<open>A value that may be \<^verbatim>\<open>undefined\<close>: \<open>None\<close> is \<^verbatim>\<open>undefined\<close>.\<close>

type_synonym jsval = "json option"

datatype js_error =
    Error string
  | TypeError
  | SyntaxError
  | ApiError string

text \<open>\<^verbatim>\<open>!v\<close> is \<open>\<not> truthy v\<close>.\<close>

fun truthy :: "jsval \<Rightarrow> bool" where
  "truthy None = False"
| "truthy (Some JNull) = False"
| "truthy (Some (JBool b)) = b"
| "truthy (Some (JNumber n)) = (n \<noteq> 0)"
| "truthy (Some (JString s)) = (s \<noteq> [])"
| "truthy (Some (JArray xs)) = True"
| "truthy (Some (JObject fs)) = True"

text \<open>
  \<^verbatim>\<open>v.key\<close> for the keys the service reads (\<^verbatim>\<open>buildingSummary\<close>, \<^verbatim>\<open>floorPlans\<close>,
  \<^verbatim>\<open>length\<close>): reading a property of \<^verbatim>\<open>null\<close> throws a TypeError; an array and a
  string have a \<^verbatim>\<open>length\<close>; an object has its own properties; every other read is
  \<^verbatim>\<open>undefined\<close>.
\<close>

fun js_get :: "json \<Rightarrow> string \<Rightarrow> js_error + jsval" where
  "js_get JNull k = Inl TypeError"
| "js_get (JObject fs) k = Inr (map_of fs k)"
| "js_get (JArray xs) k =
     Inr (if k = ''length'' then Some (JNumber (real (length xs))) else None)"
| "js_get (JString s) k =
     Inr (if k = ''length'' then Some (JNumber (real (length s))) else None)"
| "js_get (JBool b) k = Inr None"
| "js_get (JNumber n) k = Inr None"

subsection \<open>Doubles\<close>

text \<open>The integer nearest to \<open>y\<close>, the even one of two equally near.\<close>

definition rne :: "real \<Rightarrow> int" where
  "rne y =
     (let f = \<lfloor>y\<rfloor>
      in if y - real_of_int f < 1 / 2 then f
         else if 1 / 2 < y - real_of_int f then f + 1
         else if even f then f else f + 1)"

text \<open>
  The double nearest to \<open>x\<close> (round to nearest, ties to even): with
  \<open>2 ^ e \<le> |x| < 2 ^ (e + 1)\<close> the doubles around \<open>x\<close> are the multiples of
  \<open>2 ^ (e - 52)\<close>. The exponent is not bounded here: no overflow to infinity and no
  subnormal numbers.
\<close>

definition round_double :: "real \<Rightarrow> real" where
  "round_double x =
     (if x = 0 then 0
      else (let e = \<lfloor>log 2 \<bar>x\<bar>\<rfloor>; q = 2 powi (e - 52)
            in real_of_int (rne (x / q)) * q))"

subsection \<open>Strings\<close>

text \<open>\<^verbatim>\<open>String.prototype.trim\<close>, on the ASCII white space and line terminators.\<close>

definition is_space :: "char \<Rightarrow> bool" where
  "is_space c = (c \<in> set [CHR '' '', CHR 0x09, CHR 0x0A, CHR 0x0B, CHR 0x0C, CHR 0x0D])"

definition trim :: "string \<Rightarrow> string" where
  "trim s = rev (dropWhile is_space (rev (dropWhile is_space s)))"

section \<open>The plan request client (gemini.service.ts)\<close>

subsection \<open>The interfaces\<close>

datatype RoomType =
  Living | Kitchen | Bedroom | Bathroom | Staircase | Balcony | Void | Hallway

record Layout =
  layout_x :: real
  layout_y :: real
  layout_width :: real
  layout_height :: real

record Room =
  room_name :: string
  room_type :: RoomType
  area :: real
  layout :: Layout

record FloorPlan =
  level :: real
  rooms :: "Room list"

record BuildingSummary =
  summary :: string
  totalFloors :: real
  unitsPerFloor :: real

record AnalysisResult =
  buildingSummary :: BuildingSummary
  floorPlans :: "FloorPlan list"

subsection \<open>Reading a parsed reply at the interface types\<close>

text \<open>
  \<^verbatim>\<open>JSON.parse(jsonString) as AnalysisResult\<close> checks nothing at run time. The functions
  below say when a parsed value has the shape the interface declares, and which typed
  value it then is; \<open>None\<close> is a value of another shape.
\<close>

definition as_number :: "jsval \<Rightarrow> real option" where
  "as_number v = (case v of Some (JNumber n) \<Rightarrow> Some n | _ \<Rightarrow> None)"

definition as_string :: "jsval \<Rightarrow> string option" where
  "as_string v = (case v of Some (JString s) \<Rightarrow> Some s | _ \<Rightarrow> None)"

definition as_RoomType :: "jsval \<Rightarrow> RoomType option" where
  "as_RoomType v = (case v of
       Some (JString s) \<Rightarrow>
         (if s = ''living'' then Some Living
          else if s = ''kitchen'' then Some Kitchen
          else if s = ''bedroom'' then Some Bedroom
          else if s = ''bathroom'' then Some Bathroom
          else if s = ''staircase'' then Some Staircase
          else if s = ''balcony'' then Some Balcony
          else if s = ''void'' then Some Void
          else if s = ''hallway'' then Some Hallway
          else None)
     | _ \<Rightarrow> None)"

definition as_Layout :: "jsval \<Rightarrow> Layout option" where
  "as_Layout v = (case v of
       Some (JObject fs) \<Rightarrow>
         (case (as_number (map_of fs ''x''), as_number (map_of fs ''y''),
                as_number (map_of fs ''width''), as_number (map_of fs ''height'')) of
            (Some a, Some b, Some w, Some h) \<Rightarrow>
              Some \<lparr>layout_x = a, layout_y = b, layout_width = w, layout_height = h\<rparr>
          | _ \<Rightarrow> None)
     | _ \<Rightarrow> None)"

definition as_Room :: "json \<Rightarrow> Room option" where
  "as_Room v = (case v of
       JObject fs \<Rightarrow>
         (case (as_string (map_of fs ''name''), as_RoomType (map_of fs ''type''),
                as_number (map_of fs ''area''), as_Layout (map_of fs ''layout'')) of
            (Some n, Some t, Some a, Some l) \<Rightarrow>
              Some \<lparr>room_name = n, room_type = t, area = a, layout = l\<rparr>
          | _ \<Rightarrow> None)
     | _ \<Rightarrow> None)"

text \<open>All elements of a list read, or none.\<close>

fun read_all :: "('a \<Rightarrow> 'b option) \<Rightarrow> 'a list \<Rightarrow> 'b list option" where
  "read_all f [] = Some []"
| "read_all f (v # vs) =
     (case f v of
        None \<Rightarrow> None
      | Some r \<Rightarrow> (case read_all f vs of None \<Rightarrow> None | Some rs \<Rightarrow> Some (r # rs)))"

definition as_FloorPlan :: "json \<Rightarrow> FloorPlan option" where
  "as_FloorPlan v = (case v of
       JObject fs \<Rightarrow>
         (case (as_number (map_of fs ''level''), map_of fs ''rooms'') of
            (Some l, Some (JArray rs)) \<Rightarrow>
              (case read_all as_Room rs of
                 Some rs' \<Rightarrow> Some \<lparr>level = l, rooms = rs'\<rparr>
               | None \<Rightarrow> None)
          | _ \<Rightarrow> None)
     | _ \<Rightarrow> None)"

definition as_BuildingSummary :: "jsval \<Rightarrow> BuildingSummary option" where
  "as_BuildingSummary v = (case v of
       Some (JObject fs) \<Rightarrow>
         (case (as_string (map_of fs ''summary''), as_number (map_of fs ''totalFloors''),
                as_number (map_of fs ''unitsPerFloor'')) of
            (Some s, Some t, Some u) \<Rightarrow>
              Some \<lparr>summary = s, totalFloors = t, unitsPerFloor = u\<rparr>
          | _ \<Rightarrow> None)
     | _ \<Rightarrow> None)"

definition as_AnalysisResult :: "json \<Rightarrow> AnalysisResult option" where
  "as_AnalysisResult v = (case v of
       JObject fs \<Rightarrow>
         (case (as_BuildingSummary (map_of fs ''buildingSummary''), map_of fs ''floorPlans'') of
            (Some b, Some (JArray ps)) \<Rightarrow>
              (case read_all as_FloorPlan ps of
                 Some ps' \<Rightarrow> Some \<lparr>buildingSummary = b, floorPlans = ps'\<rparr>
               | None \<Rightarrow> None)
          | _ \<Rightarrow> None)
     | _ \<Rightarrow> None)"

subsection \<open>The request\<close>

text \<open>
  The prompt is a template literal: fixed text with the four arguments spliced in. A
  spliced number is kept as a number (\<open>Num\<close>), not rendered. The lines are the
  template's, without their indentation; the superscript two of the template is its two
  UTF-8 bytes.
\<close>

datatype seg = Lit string | Num real

type_synonym prompt = "seg list"

definition nl :: string where
  "nl = [CHR 0x0A]"

definition prompt_role :: string where
  "prompt_role =
     nl @ ''**Role:** You are an expert Iranian architect AI.'' @ nl
     @ ''**Task:** Design a multi-unit residential building for a plot of land in Iran, considering zoning laws, neighbor context, and practicality.'' @ nl
     @ nl"

definition prompt_instructions :: string where
  "prompt_instructions =
     ''- Assume the north side faces the main street and is the primary source of light and access.'' @ nl
     @ ''- Assume the south side is the backyard/courtyard.'' @ nl
     @ nl
     @ ''**Instructions:**'' @ nl
     @ ''1.  **Determine Optimal Building:** Based on standard Iranian regulations (e.g., 60% + 2m rule for buildable depth, maximizing vertical space), determine the optimal number of floors and units per floor.'' @ nl
     @ ''2.  **Design a Typical Floor Plan:** Create a logical and efficient layout for a typical floor. If ground floor (level 0) needs a different layout (e.g., for parking or lobby), design that as well.'' @ nl
     @ ''    - The layout should be represented as a list of rooms.'' @ nl
     @ ''    - Each room must have a name, type, area (in m'' @ [CHR 0xC2, CHR 0xB2] @ ''), and a layout object.'' @ nl
     @ ''    - The layout object ('x', 'y', 'width', 'height') must define the room's bounding box as percentages of the total land dimensions, making it easy to render. For example, a room covering the whole width would have 'x':0, 'width':100. A room starting halfway down the depth would have 'y':50.'' @ nl
     @ ''    - Include essential spaces: Living room, Kitchen, Bedroom(s), Bathroom(s), and a Staircase for vertical access.'' @ nl
     @ ''    - If there are unbuilt areas within the building footprint (like a central void for light), label them as 'void'.'' @ nl
     @ ''3.  **Provide a Summary:** Write a brief summary explaining your design choices (e.g., why you chose a certain number of floors or units).'' @ nl
     @ ''4.  **Output:** Return the entire response in a single, valid JSON object matching the provided schema. No markdown.'' @ nl"

definition build_prompt :: "real \<Rightarrow> real \<Rightarrow> real \<Rightarrow> real \<Rightarrow> prompt" where
  "build_prompt width depth neighborWestFloors neighborEastFloors =
     [Lit (prompt_role @ ''**Land Dimensions:**'' @ nl @ ''- Width (along street): ''),
      Num width,
      Lit ('' meters'' @ nl @ ''- Depth: ''),
      Num depth,
      Lit ('' meters'' @ nl @ nl @ ''**Neighborhood Context:**'' @ nl @ ''- West Neighbor: ''),
      Num neighborWestFloors,
      Lit ('' floors. This affects lighting and privacy on the west side.'' @ nl
           @ ''- East Neighbor: ''),
      Num neighborEastFloors,
      Lit ('' floors. This affects lighting and privacy on the east side.'' @ nl
           @ prompt_instructions)]"

text \<open>
  The argument of \<^verbatim>\<open>generateContent\<close>. The response schema is a constant of the source
  that no function of the program reads; it is left out of the record.
\<close>

record request =
  model :: string
  contents :: prompt
  responseMimeType :: string
  temperature :: real

text \<open>
  What the world outside does: the model call either rejects or resolves with a response
  whose \<^verbatim>\<open>text\<close> may be \<^verbatim>\<open>undefined\<close>; \<^verbatim>\<open>JSON.parse\<close> returns a value or throws a
  SyntaxError (\<open>None\<close>); \<open>ticks\<close> counts the 2500 ms periods that pass while a call is
  awaited.
\<close>

datatype api_result = Rejects js_error | Resolves "string option"

record env =
  generateContent :: "request \<Rightarrow> api_result"
  JSON_parse :: "string \<Rightarrow> json option"
  ticks :: nat

text \<open>What a function does besides changing the component's signals, in order.\<close>

datatype event =
    GenerateContent request
  | ConsoleError string js_error
  | SetInterval
  | ClearInterval
  | RedrawCanvas

subsection \<open>analyzeLand\<close>

definition invalid_data :: js_error where
  "invalid_data = Error ''Invalid data format from API: Missing essential fields.''"

definition failed_response :: js_error where
  "failed_response = Error ''Failed to get a valid response from the AI model.''"

text \<open>
  The basic validation:
  \<^verbatim>\<open>if (!result.buildingSummary || !result.floorPlans || result.floorPlans.length === 0) throw ...\<close>,
  read left to right. A truthy \<^verbatim>\<open>floorPlans\<close> is not \<^verbatim>\<open>undefined\<close>, so the last branch
  of the \<open>case\<close> on it is never taken.
\<close>

definition basic_validation :: "json \<Rightarrow> js_error + json" where
  "basic_validation result =
     (case js_get result ''buildingSummary'' of
        Inl e \<Rightarrow> Inl e
      | Inr bs \<Rightarrow>
          if \<not> truthy bs then Inl invalid_data
          else (case js_get result ''floorPlans'' of
                  Inl e \<Rightarrow> Inl e
                | Inr fp \<Rightarrow>
                    if \<not> truthy fp then Inl invalid_data
                    else (case fp of
                            Some fpv \<Rightarrow>
                              (case js_get fpv ''length'' of
                                 Inl e \<Rightarrow> Inl e
                               | Inr len \<Rightarrow>
                                   if len = Some (JNumber 0) then Inl invalid_data
                                   else Inr result)
                          | None \<Rightarrow> Inl TypeError)))"

text \<open>The body of the \<^verbatim>\<open>try\<close> block: \<open>Inl\<close> is whatever it throws.\<close>

definition analyzeLand_try :: "env \<Rightarrow> request \<Rightarrow> js_error + json" where
  "analyzeLand_try ev req =
     (case generateContent ev req of
        Rejects e \<Rightarrow> Inl e
      | Resolves text \<Rightarrow>
          (case text of
             None \<Rightarrow> Inl TypeError
           | Some t \<Rightarrow>
               (case JSON_parse ev (trim t) of
                  None \<Rightarrow> Inl SyntaxError
                | Some result \<Rightarrow> basic_validation result)))"

definition analyzeLand_request :: "real \<Rightarrow> real \<Rightarrow> real \<Rightarrow> real \<Rightarrow> request" where
  "analyzeLand_request width depth neighborWestFloors neighborEastFloors =
     \<lparr>model = ''gemini-2.5-flash'',
      contents = build_prompt width depth neighborWestFloors neighborEastFloors,
      responseMimeType = ''application/json'',
      temperature = 3 / 10\<rparr>"

text \<open>
  \<open>analyzeLand\<close> returns what it did and how its promise settles: \<open>Inr\<close> the parsed
  reply, \<open>Inl\<close> the error the \<^verbatim>\<open>catch\<close> block throws after logging the one it caught.
\<close>

definition analyzeLand ::
  "env \<Rightarrow> real \<Rightarrow> real \<Rightarrow> real \<Rightarrow> real \<Rightarrow> event list \<times> (js_error + json)" where
  "analyzeLand ev width depth neighborWestFloors neighborEastFloors =
     (let req = analyzeLand_request width depth neighborWestFloors neighborEastFloors
      in case analyzeLand_try ev req of
           Inr result \<Rightarrow> ([GenerateContent req], Inr result)
         | Inl error \<Rightarrow>
             ([GenerateContent req, ConsoleError ''Gemini API Error:'' error],
              Inl failed_response))"

section \<open>The application state controller (app.component.ts)\<close>

datatype Step = Input | Loading | Result

datatype InputType = Numeric | Draw

datatype ViewMode = View2d | View3d | View3dPlus | Building3d

text \<open>
  The three messages the component shows are Persian text; each is named here by what it
  says: at least three points are needed to draw the plot; enter valid dimensions for the
  plot; error in communicating with the AI service.
\<close>

datatype ui_message = MsgThreePoints | MsgValidDimensions | MsgServiceError | MsgServiceRetry

record Point =
  point_x :: real
  point_y :: real

text \<open>The signals of the component.\<close>

record AppComponent =
  step :: Step
  inputType :: InputType
  viewMode :: ViewMode
  landWidth :: real
  landDepth :: real
  neighborEastFloors :: real
  neighborWestFloors :: real
  polygonPoints :: "Point list"
  analysisResult :: "AnalysisResult option"
  errorMessage :: "ui_message option"
  selectedFloor :: real
  currentLoadingMessage :: string

definition loadingMessages :: "string list" where
  "loadingMessages =
     [''Analyzing zoning laws...'', ''Considering neighborhood context...'',
      ''Optimizing layout...'', ''Generating plans...'', ''Finalizing details...'']"

definition MAX_GRID_SIZE_METERS :: real where
  "MAX_GRID_SIZE_METERS = 50"

definition initial :: AppComponent where
  "initial =
     \<lparr>step = Input, inputType = Numeric, viewMode = Building3d,
      landWidth = 10, landDepth = 20, neighborEastFloors = 2, neighborWestFloors = 2,
      polygonPoints = [], analysisResult = None, errorMessage = None, selectedFloor = 0,
      currentLoadingMessage = ''Analyzing zoning laws...''\<rparr>"

definition isDrawingValid :: "AppComponent \<Rightarrow> bool" where
  "isDrawingValid st = (length (polygonPoints st) \<ge> 3)"

subsection \<open>currentFloorPlan\<close>

text \<open>
  \<^verbatim>\<open>xs[i]\<close> for a number \<open>i\<close>: the element when \<open>i\<close> is a whole number within the
  array, \<^verbatim>\<open>undefined\<close> (\<open>None\<close>) otherwise.
\<close>

definition js_index :: "'a list \<Rightarrow> real \<Rightarrow> 'a option" where
  "js_index xs i =
     (if 0 \<le> i \<and> i = real_of_int \<lfloor>i\<rfloor> \<and> nat \<lfloor>i\<rfloor> < length xs
      then Some (xs ! nat \<lfloor>i\<rfloor>) else None)"

datatype 'a js_ref = Null | Undefined | Obj 'a

text \<open>
  At the interface types \<^verbatim>\<open>result.floorPlans\<close> is an array, which is truthy, and a floor
  plan is an object, which is truthy: \<^verbatim>\<open>||\<close> falls back exactly when the index misses.
\<close>

definition currentFloorPlan :: "AppComponent \<Rightarrow> FloorPlan js_ref" where
  "currentFloorPlan st =
     (case analysisResult st of
        None \<Rightarrow> Null
      | Some result \<Rightarrow>
          (case js_index (floorPlans result) (selectedFloor st) of
             Some p \<Rightarrow> Obj p
           | None \<Rightarrow>
               (case js_index (floorPlans result) 0 of
                  Some p \<Rightarrow> Obj p
                | None \<Rightarrow> Undefined)))"

subsection \<open>Drawing\<close>

text \<open>\<^verbatim>\<open>xs.slice(start, end)\<close>: a negative index counts from the end.\<close>

definition slice_index :: "nat \<Rightarrow> int \<Rightarrow> nat" where
  "slice_index n i = (if i < 0 then nat (max (int n + i) 0) else min (nat i) n)"

definition slice :: "'a list \<Rightarrow> int \<Rightarrow> int \<Rightarrow> 'a list" where
  "slice xs start stop =
     (let k = slice_index (length xs) start; final = slice_index (length xs) stop
      in take (final - k) (drop k xs))"

definition undoPoint :: "AppComponent \<Rightarrow> AppComponent \<times> event list" where
  "undoPoint st = (st\<lparr>polygonPoints := slice (polygonPoints st) 0 (- 1)\<rparr>, [RedrawCanvas])"

definition resetDrawing :: "AppComponent \<Rightarrow> AppComponent \<times> event list" where
  "resetDrawing st = (st\<lparr>polygonPoints := []\<rparr>, [RedrawCanvas])"

subsection \<open>analyzePlot\<close>

text \<open>
  \<^verbatim>\<open>Math.min(...vs)\<close> and \<^verbatim>\<open>Math.max(...vs)\<close>. Of no arguments they are the infinities,
  which are not reals: \<open>None\<close>.
\<close>

fun Math_min :: "real list \<Rightarrow> real option" where
  "Math_min [] = None"
| "Math_min (v # vs) = Some (fold min vs v)"

fun Math_max :: "real list \<Rightarrow> real option" where
  "Math_max [] = None"
| "Math_max (v # vs) = Some (fold max vs v)"

text \<open>
  The decimal that \<^verbatim>\<open>v.toFixed(1)\<close> writes: the multiple of a tenth nearest to \<open>v\<close>, the
  larger one of two equally near; a negative \<open>v\<close> is rounded as \<open>- v\<close> is.
\<close>

definition toFixed1 :: "real \<Rightarrow> real" where
  "toFixed1 v =
     (if v < 0 then - (real_of_int \<lfloor>- v * 10 + 1 / 2\<rfloor> / 10)
      else real_of_int \<lfloor>v * 10 + 1 / 2\<rfloor> / 10)"

text \<open>
  One side of the bounding box in meters, \<^verbatim>\<open>(max - min) * MAX_GRID_SIZE_METERS\<close>: the
  difference is rounded to a double, and so is the product. The coordinates are doubles
  when the code gets here. With no points the side is \<^verbatim>\<open>-Infinity\<close> (\<open>None\<close>).
\<close>

definition raw_meters :: "real list \<Rightarrow> real option" where
  "raw_meters vs =
     (case (Math_min vs, Math_max vs) of
        (Some lo, Some hi) \<Rightarrow>
          Some (round_double (round_double (hi - lo) * MAX_GRID_SIZE_METERS))
      | _ \<Rightarrow> None)"

text \<open>
  \<^verbatim>\<open>Math.max(5, parseFloat(v.toFixed(1)))\<close>: \<^verbatim>\<open>parseFloat\<close> returns the double nearest to
  the decimal. Of \<^verbatim>\<open>-Infinity\<close> it is 5; \<open>analyzePlot\<close> gets here with three points or
  more.
\<close>

definition normalized :: "real option \<Rightarrow> real" where
  "normalized m = (case m of Some v \<Rightarrow> max 5 (round_double (toFixed1 v)) | None \<Rightarrow> 5)"

definition side_meters :: "real list \<Rightarrow> real" where
  "side_meters vs = normalized (raw_meters vs)"

text \<open>
  The first part of \<open>analyzePlot\<close>: \<open>Inl\<close> the message of the early return, \<open>Inr\<close> the
  final width and depth.
\<close>

definition final_dimensions :: "AppComponent \<Rightarrow> ui_message + real \<times> real" where
  "final_dimensions st =
     (if inputType st = Draw then
        (if \<not> isDrawingValid st then Inl MsgThreePoints
         else Inr (side_meters (map point_x (polygonPoints st)),
                   side_meters (map point_y (polygonPoints st))))
      else
        (if landWidth st \<le> 0 \<or> landDepth st \<le> 0 then Inl MsgValidDimensions
         else Inr (landWidth st, landDepth st)))"

text \<open>
  \<open>startLoadingMessages\<close> shows the first message and starts a timer that moves to the
  next message every 2500 ms, so after \<open>n\<close> periods message \<open>n mod 5\<close> is shown.
\<close>

definition loadingMessageAfter :: "string list \<Rightarrow> nat \<Rightarrow> string" where
  "loadingMessageAfter messages n = messages ! (n mod length messages)"

text \<open>
  The component is written against the interface \<open>AnalysisResult\<close>. A reply that passes
  the service's basic validation without having that shape is stored by the source like
  any other; the typed state cannot hold it, and the model stops there (\<open>IllTyped\<close>).
\<close>

datatype outcome =
    Completed AppComponent "event list"
  | IllTyped json "event list"

fun events_of :: "outcome \<Rightarrow> event list" where
  "events_of (Completed st evs) = evs"
| "events_of (IllTyped reply evs) = evs"

fun final_state :: "outcome \<Rightarrow> AppComponent option" where
  "final_state (Completed st evs) = Some st"
| "final_state (IllTyped reply evs) = None"

text \<open>The model requests among the events.\<close>

fun requests :: "event list \<Rightarrow> request list" where
  "requests [] = []"
| "requests (GenerateContent req # evs) = req # requests evs"
| "requests (e # evs) = requests evs"

definition analyzePlot :: "env \<Rightarrow> AppComponent \<Rightarrow> outcome" where
  "analyzePlot ev st =
     (case final_dimensions st of
        Inl msg \<Rightarrow> Completed (st\<lparr>errorMessage := Some msg\<rparr>) []
      | Inr (finalWidth, finalDepth) \<Rightarrow>
          (let st1 = st\<lparr>landWidth := finalWidth, landDepth := finalDepth, step := Loading,
                         analysisResult := None, errorMessage := None,
                         currentLoadingMessage := loadingMessageAfter loadingMessages (ticks ev)\<rparr>
           in case analyzeLand ev finalWidth finalDepth
                     (neighborEastFloors st) (neighborWestFloors st) of
                (evs, Inr reply) \<Rightarrow>
                  (case as_AnalysisResult reply of
                     Some result \<Rightarrow>
                       Completed
                         (st1\<lparr>analysisResult := Some result, selectedFloor := 0,
                              step := Result, viewMode := Building3d\<rparr>)
                         ([SetInterval] @ evs @ [ClearInterval])
                   | None \<Rightarrow> IllTyped reply ([SetInterval] @ evs @ [ClearInterval]))
              | (evs, Inl error) \<Rightarrow>
                  Completed
                    (st1\<lparr>errorMessage := Some MsgServiceError, step := Input\<rparr>)
                    ([SetInterval] @ evs
                     @ [ConsoleError ''Error analyzing land:'' error, ClearInterval])))"

text \<open>
  The file holds an earlier revision of the component after the current one: numeric
  input only, its own loading messages, a longer service error message (\<open>MsgServiceRetry\<close>:
  the same, then: please try again and make sure the inputs are right), and no change of
  the view mode on success. Its \<open>currentFloorPlan\<close> is the current one.
\<close>

definition loadingMessages_earlier :: "string list" where
  "loadingMessages_earlier =
     [''Analyzing zoning laws...'', ''Considering neighborhood context...'',
      ''Optimizing layout for maximum units...'', ''Generating architectural floor plans...'',
      ''Finalizing details...'']"

definition analyzePlot_earlier :: "env \<Rightarrow> AppComponent \<Rightarrow> outcome" where
  "analyzePlot_earlier ev st =
     (if landWidth st \<le> 0 \<or> landDepth st \<le> 0
      then Completed (st\<lparr>errorMessage := Some MsgValidDimensions\<rparr>) []
      else
        (let st1 = st\<lparr>step := Loading, analysisResult := None, errorMessage := None,
                       currentLoadingMessage :=
                         loadingMessageAfter loadingMessages_earlier (ticks ev)\<rparr>
         in case analyzeLand ev (landWidth st) (landDepth st)
                   (neighborEastFloors st) (neighborWestFloors st) of
              (evs, Inr reply) \<Rightarrow>
                (case as_AnalysisResult reply of
                   Some result \<Rightarrow>
                     Completed
                       (st1\<lparr>analysisResult := Some result, selectedFloor := 0, step := Result\<rparr>)
                       ([SetInterval] @ evs @ [ClearInterval])
                 | None \<Rightarrow> IllTyped reply ([SetInterval] @ evs @ [ClearInterval]))
            | (evs, Inl error) \<Rightarrow>
                Completed
                  (st1\<lparr>errorMessage := Some MsgServiceRetry, step := Input\<rparr>)
                  ([SetInterval] @ evs
                   @ [ConsoleError ''Error analyzing land:'' error, ClearInterval])))"

definition startOver :: "AppComponent \<Rightarrow> AppComponent" where
  "startOver st = st\<lparr>step := Input, analysisResult := None, errorMessage := None\<rparr>"

section \<open>The 3D scene renderer (three-d-view.component.ts)\<close>

text \<open>
  The repository holds two revisions of the component. They build the scene by the same
  steps and differ in constants and in whether outlines are drawn; \<open>ViewConsts\<close> holds
  what differs.
\<close>

record ViewConsts =
  FLOOR_HEIGHT :: real
  slabThickness :: real
  roomInset :: real
  singleRoomHeight :: real
  neighborWidth :: real
  neighborGap :: real
  edgeLines :: bool

definition consts_named :: ViewConsts where
  "consts_named =
     \<lparr>FLOOR_HEIGHT = 3, slabThickness = 2 / 10, roomInset = 2 / 10, singleRoomHeight = 25 / 10,
      neighborWidth = 10, neighborGap = 5 / 10, edgeLines = False\<rparr>"

definition consts_unnamed :: ViewConsts where
  "consts_unnamed =
     \<lparr>FLOOR_HEIGHT = 32 / 10, slabThickness = 1 / 10, roomInset = 15 / 100,
      singleRoomHeight = 28 / 10, neighborWidth = 15, neighborGap = 1, edgeLines = True\<rparr>"

text \<open>
  An object added to the scene: what it is (which stands for its material), the box it is
  made from (width, height, depth) and where its centre is. Colours are left out.
\<close>

datatype object_kind =
    RoomMesh RoomType
  | VoidMesh
  | RoomEdges RoomType
  | SlabMesh
  | NeighborMesh
  | NeighborEdges

record Object3D =
  kind :: object_kind
  box :: "real \<times> real \<times> real"
  position :: "real \<times> real \<times> real"

definition slabPiece :: "ViewConsts \<Rightarrow> real \<Rightarrow> real \<Rightarrow> real \<Rightarrow> Room \<Rightarrow> Object3D" where
  "slabPiece c elevation landW landD room =
     (let w = (layout_width (layout room) / 100) * landW;
          d = (layout_height (layout room) / 100) * landD;
          posX = (layout_x (layout room) / 100) * landW + w / 2 - landW / 2;
          posZ = (layout_y (layout room) / 100) * landD + d / 2 - landD / 2
      in \<lparr>kind = SlabMesh, box = (w, slabThickness c, d),
          position = (posX, elevation - slabThickness c / 2, posZ)\<rparr>)"

text \<open>\<open>renderSlab\<close>: the \<^verbatim>\<open>forEach\<close> over the rooms, a void room returning at once.\<close>

fun slabRooms :: "ViewConsts \<Rightarrow> real \<Rightarrow> real \<Rightarrow> real \<Rightarrow> Room list \<Rightarrow> Object3D list" where
  "slabRooms c elevation landW landD [] = []"
| "slabRooms c elevation landW landD (room # rest) =
     (if room_type room = Void then slabRooms c elevation landW landD rest
      else slabPiece c elevation landW landD room # slabRooms c elevation landW landD rest)"

definition renderSlab :: "ViewConsts \<Rightarrow> real \<Rightarrow> real \<Rightarrow> real \<Rightarrow> FloorPlan \<Rightarrow> Object3D list" where
  "renderSlab c elevation landW landD plan = slabRooms c elevation landW landD (rooms plan)"

definition roomObjects :: "ViewConsts \<Rightarrow> real \<Rightarrow> real \<Rightarrow> real \<Rightarrow> real \<Rightarrow> Room \<Rightarrow> Object3D list" where
  "roomObjects c roomHeight elevation landW landD room =
     (let roomWidth = (layout_width (layout room) / 100) * landW;
          roomDepth = (layout_height (layout room) / 100) * landD;
          posX = (layout_x (layout room) / 100) * landW + roomWidth / 2 - landW / 2;
          posZ = (layout_y (layout room) / 100) * landD + roomDepth / 2 - landD / 2;
          geometry = (roomWidth, roomHeight, roomDepth);
          pos = (posX, elevation + roomHeight / 2, posZ);
          mesh = \<lparr>kind = (if room_type room = Void then VoidMesh else RoomMesh (room_type room)),
                  box = geometry, position = pos\<rparr>
      in if edgeLines c \<and> room_type room \<noteq> Void
         then [mesh, \<lparr>kind = RoomEdges (room_type room), box = geometry, position = pos\<rparr>]
         else [mesh])"

fun floorRooms ::
  "ViewConsts \<Rightarrow> real \<Rightarrow> real \<Rightarrow> real \<Rightarrow> real \<Rightarrow> bool \<Rightarrow> Room list \<Rightarrow> Object3D list" where
  "floorRooms c roomHeight elevation landW landD isBuildingView [] = []"
| "floorRooms c roomHeight elevation landW landD isBuildingView (room # rest) =
     (if room_type room = Void \<and> isBuildingView
      then floorRooms c roomHeight elevation landW landD isBuildingView rest
      else roomObjects c roomHeight elevation landW landD room
           @ floorRooms c roomHeight elevation landW landD isBuildingView rest)"

definition renderFloor ::
  "ViewConsts \<Rightarrow> FloorPlan \<Rightarrow> real \<Rightarrow> real \<Rightarrow> real \<Rightarrow> bool \<Rightarrow> Object3D list" where
  "renderFloor c plan elevation landW landD isBuildingView =
     (let roomHeight = (if isBuildingView then FLOOR_HEIGHT c - roomInset c
                        else singleRoomHeight c)
      in floorRooms c roomHeight elevation landW landD isBuildingView (rooms plan))"

definition neighbor :: "ViewConsts \<Rightarrow> real \<Rightarrow> real \<Rightarrow> real \<Rightarrow> Object3D list" where
  "neighbor c floors xPos landD =
     (let h = floors * FLOOR_HEIGHT c;
          geom = (neighborWidth c, h, landD);
          mesh = \<lparr>kind = NeighborMesh, box = geom, position = (xPos, h / 2, 0)\<rparr>
      in if edgeLines c
         then [mesh, \<lparr>kind = NeighborEdges, box = geom, position = (xPos, h / 2, 0)\<rparr>]
         else [mesh])"

definition renderNeighbors :: "ViewConsts \<Rightarrow> real \<Rightarrow> real \<Rightarrow> real \<Rightarrow> real \<Rightarrow> Object3D list" where
  "renderNeighbors c landW landD neighborWest neighborEast =
     (if neighborWest > 0
      then neighbor c neighborWest (- (landW / 2 + neighborWidth c / 2 + neighborGap c)) landD
      else [])
     @ (if neighborEast > 0
        then neighbor c neighborEast (landW / 2 + neighborWidth c / 2 + neighborGap c) landD
        else [])"

text \<open>
  What \<open>createBuildingScene\<close> adds to the scene, call by call: a floor and a slab carry the
  elevation they were rendered at and the objects that call added.
\<close>

datatype part =
    FloorLevel real "Object3D list"
  | Slab real "Object3D list"
  | Neighbors "Object3D list"

text \<open>The \<^verbatim>\<open>for\<close> loop over the floors, from counter \<open>i\<close> with \<open>acc\<close> added so far.\<close>

function floorsLoop ::
  "ViewConsts \<Rightarrow> real \<Rightarrow> FloorPlan \<Rightarrow> FloorPlan \<Rightarrow> real \<Rightarrow> real \<Rightarrow> nat \<Rightarrow> part list \<Rightarrow> part list"
  where
  "floorsLoop c nFloors groundPlan typicalPlan landW landD i acc =
     (if real i < nFloors then
        (let elevation = real i * FLOOR_HEIGHT c;
             planToRender = (if i = 0 then groundPlan else typicalPlan);
             acc1 = acc @ [FloorLevel elevation
                             (renderFloor c planToRender elevation landW landD True)];
             acc2 = (if i > 0
                     then acc1 @ [Slab elevation (renderSlab c elevation landW landD planToRender)]
                     else acc1)
         in floorsLoop c nFloors groundPlan typicalPlan landW landD (Suc i) acc2)
      else acc)"
  by pat_completeness auto
termination
proof (relation "measure (\<lambda>(c, nFloors, g, t, w, d, i, acc). nat \<lceil>nFloors\<rceil> - i)")
  show "wf (measure (\<lambda>(c, nFloors, g, t, w, d, i, acc). nat \<lceil>nFloors\<rceil> - i))"
    by simp
next
  fix c :: ViewConsts and nFloors landW landD :: real and groundPlan typicalPlan :: FloorPlan
    and i :: nat and acc xc :: "part list"
  assume "real i < nFloors"
  then have "int i < \<lceil>nFloors\<rceil>"
    by linarith
  then have "i < nat \<lceil>nFloors\<rceil>"
    by linarith
  then show "((c, nFloors, groundPlan, typicalPlan, landW, landD, Suc i, xc),
              (c, nFloors, groundPlan, typicalPlan, landW, landD, i, acc))
             \<in> measure (\<lambda>(c, nFloors, g, t, w, d, i, acc). nat \<lceil>nFloors\<rceil> - i)"
    by simp
qed

declare floorsLoop.simps [simp del]

text \<open>
  \<^verbatim>\<open>floorPlans.find(...) || floorPlans[0]\<close>: \<open>None\<close> is \<^verbatim>\<open>undefined\<close>, which is what both
  are for an empty array.
\<close>

definition typicalPlan :: "FloorPlan list \<Rightarrow> FloorPlan option" where
  "typicalPlan plans =
     (if length plans > 1
      then (case find (\<lambda>p. level p > 0) plans of Some p \<Rightarrow> Some p | None \<Rightarrow> js_index plans 0)
      else js_index plans 0)"

definition groundPlan :: "FloorPlan list \<Rightarrow> FloorPlan option" where
  "groundPlan plans =
     (case find (\<lambda>p. level p = 0) plans of Some p \<Rightarrow> Some p | None \<Rightarrow> js_index plans 0)"

text \<open>
  \<open>createBuildingScene\<close>, given the \<^verbatim>\<open>result\<close> input and the two neighbour inputs of the
  view. Without a result it adds nothing. With an empty \<^verbatim>\<open>floorPlans\<close> both plans are
  \<^verbatim>\<open>undefined\<close> and the first call that reads \<^verbatim>\<open>plan.rooms\<close> (the first floor, or the roof
  when the loop does not run) throws a TypeError before anything is added.
\<close>

definition createBuildingScene ::
  "ViewConsts \<Rightarrow> AnalysisResult option \<Rightarrow> real \<Rightarrow> real \<Rightarrow> real \<Rightarrow> real \<Rightarrow> js_error + part list"
  where
  "createBuildingScene c result neighborWest neighborEast landW landD =
     (case result of
        None \<Rightarrow> Inr []
      | Some r \<Rightarrow>
          (let nFloors = totalFloors (buildingSummary r) in
           case (groundPlan (floorPlans r), typicalPlan (floorPlans r)) of
             (Some g, Some t) \<Rightarrow>
               Inr (floorsLoop c nFloors g t landW landD 0 []
                    @ [Slab (nFloors * FLOOR_HEIGHT c)
                         (renderSlab c (nFloors * FLOOR_HEIGHT c) landW landD t),
                       Neighbors (renderNeighbors c landW landD neighborWest neighborEast)])
           | _ \<Rightarrow> Inl TypeError))"

subsection \<open>Reading a scene\<close>

text \<open>
  The objects of a scene in the order they were added; whether an object is the mesh of
  a room; and the elevation of the lower and the upper face of an object's box.
\<close>

definition objects :: "part list \<Rightarrow> Object3D list" where
  "objects ps =
     concat (map (\<lambda>p. case p of FloorLevel e obs \<Rightarrow> obs | Slab e obs \<Rightarrow> obs | Neighbors obs \<Rightarrow> obs) ps)"

definition isRoomMesh :: "Object3D \<Rightarrow> bool" where
  "isRoomMesh ob = (case kind ob of RoomMesh ty \<Rightarrow> True | _ \<Rightarrow> False)"

definition bottom_face :: "Object3D \<Rightarrow> real" where
  "bottom_face ob = (case (box ob, position ob) of ((w, h, d), (px, py, pz)) \<Rightarrow> py - h / 2)"

definition top_face :: "Object3D \<Rightarrow> real" where
  "top_face ob = (case (box ob, position ob) of ((w, h, d), (px, py, pz)) \<Rightarrow> py + h / 2)"

section \<open>Concrete inputs\<close>

text \<open>Worlds, replies and states at which the properties below are evaluated.\<close>

text \<open>
  A world where the model replies with the text \<open>t\<close>, which parses to \<open>j\<close>; a world
  where the call is rejected; a world where the reply is not JSON.
\<close>

definition env_replying :: "string \<Rightarrow> json \<Rightarrow> env" where
  "env_replying t j =
     \<lparr>generateContent = (\<lambda>req. Resolves (Some t)),
      JSON_parse = (\<lambda>s. if s = trim t then Some j else None),
      ticks = 0\<rparr>"

definition env_offline :: env where
  "env_offline =
     \<lparr>generateContent = (\<lambda>req. Rejects (ApiError ''fetch failed'')),
      JSON_parse = (\<lambda>s. None),
      ticks = 0\<rparr>"

definition env_unparsable :: env where
  "env_unparsable =
     \<lparr>generateContent = (\<lambda>req. Resolves (Some ''Service Unavailable'')),
      JSON_parse = (\<lambda>s. None),
      ticks = 0\<rparr>"

text \<open>A reply of three floors with two rooms on each, as text, as parsed and as read at the interface.\<close>

definition room_json :: "string \<Rightarrow> string \<Rightarrow> real \<Rightarrow> real \<Rightarrow> real \<Rightarrow> real \<Rightarrow> real \<Rightarrow> json" where
  "room_json n t a px py w h =
     JObject [(''name'', JString n), (''type'', JString t), (''area'', JNumber a),
              (''layout'', JObject [(''x'', JNumber px), (''y'', JNumber py),
                                    (''width'', JNumber w), (''height'', JNumber h)])]"

definition plan_json :: "real \<Rightarrow> json list \<Rightarrow> json" where
  "plan_json l rs = JObject [(''level'', JNumber l), (''rooms'', JArray rs)]"

definition reply_text :: string where
  \<open>reply_text =
     ''{"buildingSummary":{"summary":"Three floors","totalFloors":3,"unitsPerFloor":1},''
     @ ''"floorPlans":[''
     @ ''{"level":0,"rooms":[{"name":"Lobby","type":"hallway","area":120,"layout":{"x":0,"y":0,"width":100,"height":60}},''
     @ ''{"name":"Stairs","type":"staircase","area":20,"layout":{"x":40,"y":60,"width":20,"height":10}}]},''
     @ ''{"level":1,"rooms":[{"name":"Living","type":"living","area":100,"layout":{"x":0,"y":0,"width":100,"height":50}},''
     @ ''{"name":"Light well","type":"void","area":20,"layout":{"x":40,"y":50,"width":20,"height":10}}]},''
     @ ''{"level":2,"rooms":[{"name":"Bedroom","type":"bedroom","area":60,"layout":{"x":0,"y":0,"width":100,"height":30}},''
     @ ''{"name":"Kitchen","type":"kitchen","area":40,"layout":{"x":0,"y":30,"width":100,"height":20}}]}]}'' @ nl\<close>

definition reply_json :: json where
  "reply_json =
     JObject
       [(''buildingSummary'',
           JObject [(''summary'', JString ''Three floors''), (''totalFloors'', JNumber 3),
                    (''unitsPerFloor'', JNumber 1)]),
        (''floorPlans'',
           JArray
             [plan_json 0 [room_json ''Lobby'' ''hallway'' 120 0 0 100 60,
                           room_json ''Stairs'' ''staircase'' 20 40 60 20 10],
              plan_json 1 [room_json ''Living'' ''living'' 100 0 0 100 50,
                           room_json ''Light well'' ''void'' 20 40 50 20 10],
              plan_json 2 [room_json ''Bedroom'' ''bedroom'' 60 0 0 100 30,
                           room_json ''Kitchen'' ''kitchen'' 40 0 30 100 20]])]"

definition mkRoom :: "string \<Rightarrow> RoomType \<Rightarrow> real \<Rightarrow> real \<Rightarrow> real \<Rightarrow> real \<Rightarrow> real \<Rightarrow> Room" where
  "mkRoom n t a px py w h =
     \<lparr>room_name = n, room_type = t, area = a,
      layout = \<lparr>layout_x = px, layout_y = py, layout_width = w, layout_height = h\<rparr>\<rparr>"

definition plan0 :: FloorPlan where
  "plan0 = \<lparr>level = 0, rooms = [mkRoom ''Lobby'' Hallway 120 0 0 100 60,
                                  mkRoom ''Stairs'' Staircase 20 40 60 20 10]\<rparr>"

definition plan1 :: FloorPlan where
  "plan1 = \<lparr>level = 1, rooms = [mkRoom ''Living'' Living 100 0 0 100 50,
                                  mkRoom ''Light well'' Void 20 40 50 20 10]\<rparr>"

definition plan2 :: FloorPlan where
  "plan2 = \<lparr>level = 2, rooms = [mkRoom ''Bedroom'' Bedroom 60 0 0 100 30,
                                  mkRoom ''Kitchen'' Kitchen 40 0 30 100 20]\<rparr>"

definition reply_result :: AnalysisResult where
  "reply_result =
     \<lparr>buildingSummary = \<lparr>summary = ''Three floors'', totalFloors = 3, unitsPerFloor = 1\<rparr>,
      floorPlans = [plan0, plan1, plan2]\<rparr>"



text \<open>The component in draw mode with a given polygon; polygons of three, two and four points.\<close>

definition drawing :: "Point list \<Rightarrow> AppComponent" where
  "drawing pts = initial\<lparr>inputType := Draw, polygonPoints := pts\<rparr>"


definition two_points :: "Point list" where
  "two_points = [\<lparr>point_x = 1 / 10, point_y = 1 / 10\<rparr>, \<lparr>point_x = 1 / 2, point_y = 1 / 10\<rparr>]"

definition square :: "Point list" where
  "square =
     [\<lparr>point_x = 0, point_y = 0\<rparr>, \<lparr>point_x = 1 / 2, point_y = 0\<rparr>,
      \<lparr>point_x = 1 / 2, point_y = 1 / 2\<rparr>, \<lparr>point_x = 0, point_y = 1 / 2\<rparr>]"

text \<open>
  Used in the proofs: the rooms of a plan that are not voids, and the objects that the
  floor and the slab of level \<open>i\<close> consist of, written out.
\<close>

definition solid :: "FloorPlan \<Rightarrow> Room list" where
  "solid p = filter (\<lambda>room. room_type room \<noteq> Void) (rooms p)"

definition meshAt :: "ViewConsts \<Rightarrow> real \<Rightarrow> real \<Rightarrow> nat \<Rightarrow> Room \<Rightarrow> Object3D" where
  "meshAt c landW landD i room =
     \<lparr>kind = RoomMesh (room_type room),
      box = (layout_width (layout room) / 100 * landW, FLOOR_HEIGHT c - roomInset c,
             layout_height (layout room) / 100 * landD),
      position = (layout_x (layout room) / 100 * landW
                    + layout_width (layout room) / 100 * landW / 2 - landW / 2,
                  real i * FLOOR_HEIGHT c + (FLOOR_HEIGHT c - roomInset c) / 2,
                  layout_y (layout room) / 100 * landD
                    + layout_height (layout room) / 100 * landD / 2 - landD / 2)\<rparr>"

definition edgesAt :: "ViewConsts \<Rightarrow> real \<Rightarrow> real \<Rightarrow> nat \<Rightarrow> Room \<Rightarrow> Object3D" where
  "edgesAt c landW landD i room =
     \<lparr>kind = RoomEdges (room_type room),
      box = (layout_width (layout room) / 100 * landW, FLOOR_HEIGHT c - roomInset c,
             layout_height (layout room) / 100 * landD),
      position = (layout_x (layout room) / 100 * landW
                    + layout_width (layout room) / 100 * landW / 2 - landW / 2,
                  real i * FLOOR_HEIGHT c + (FLOOR_HEIGHT c - roomInset c) / 2,
                  layout_y (layout room) / 100 * landD
                    + layout_height (layout room) / 100 * landD / 2 - landD / 2)\<rparr>"

definition pieceAt :: "ViewConsts \<Rightarrow> real \<Rightarrow> real \<Rightarrow> nat \<Rightarrow> Room \<Rightarrow> Object3D" where
  "pieceAt c landW landD i room =
     \<lparr>kind = SlabMesh,
      box = (layout_width (layout room) / 100 * landW, slabThickness c,
             layout_height (layout room) / 100 * landD),
      position = (layout_x (layout room) / 100 * landW
                    + layout_width (layout room) / 100 * landW / 2 - landW / 2,
                  real i * FLOOR_HEIGHT c - slabThickness c / 2,
                  layout_y (layout room) / 100 * landD
                    + layout_height (layout room) / 100 * landD / 2 - landD / 2)\<rparr>"

definition floorObjs :: "ViewConsts \<Rightarrow> real \<Rightarrow> real \<Rightarrow> nat \<Rightarrow> FloorPlan \<Rightarrow> Object3D list" where
  "floorObjs c landW landD i p =
     concat (map (\<lambda>room. if edgeLines c
                          then [meshAt c landW landD i room, edgesAt c landW landD i room]
                          else [meshAt c landW landD i room])
               (solid p))"

definition slabObjs :: "ViewConsts \<Rightarrow> real \<Rightarrow> real \<Rightarrow> nat \<Rightarrow> FloorPlan \<Rightarrow> Object3D list" where
  "slabObjs c landW landD i p = map (pieceAt c landW landD i) (solid p)"

text \<open>Used in the proofs: what the loop adds for one floor above the ground floor.\<close>

definition levelParts ::
  "ViewConsts \<Rightarrow> FloorPlan \<Rightarrow> real \<Rightarrow> real \<Rightarrow> nat \<Rightarrow> part list" where
  "levelParts c t landW landD i =
     [FloorLevel (real i * FLOOR_HEIGHT c)
        (renderFloor c t (real i * FLOOR_HEIGHT c) landW landD True),
      Slab (real i * FLOOR_HEIGHT c) (renderSlab c (real i * FLOOR_HEIGHT c) landW landD t)]"

text \<open>
  States of the component: showing the three-floor result; with an east neighbour of five
  floors and a west neighbour of one; showing a given result with a given floor selected.
  \<open>gapped_result\<close> has plans of levels 0 and 2 only.
\<close>

definition showing_result :: AppComponent where
  "showing_result = initial\<lparr>step := Result, analysisResult := Some reply_result\<rparr>"

definition uneven_neighbors :: AppComponent where
  "uneven_neighbors = initial\<lparr>neighborEastFloors := 5, neighborWestFloors := 1\<rparr>"

definition gapped_result :: AnalysisResult where
  "gapped_result =
     \<lparr>buildingSummary = \<lparr>summary = ''Two plans'', totalFloors = 3, unitsPerFloor = 1\<rparr>,
      floorPlans = [plan0, plan2]\<rparr>"

definition showing :: "AnalysisResult \<Rightarrow> real \<Rightarrow> AppComponent" where
  "showing r i = initial\<lparr>step := Result, analysisResult := Some r, selectedFloor := i\<rparr>"

text \<open>The scene of the three-floor reply on a plot of 10 by 20 meters, object by object.\<close>

definition three_floor_scene :: "part list" where
  "three_floor_scene =
     [FloorLevel 0
        [\<lparr>kind = RoomMesh Hallway, box = (10, 28 / 10, 12), position = (0, 14 / 10, - 4)\<rparr>,
         \<lparr>kind = RoomMesh Staircase, box = (2, 28 / 10, 2), position = (0, 14 / 10, 3)\<rparr>],
      FloorLevel 3
        [\<lparr>kind = RoomMesh Living, box = (10, 28 / 10, 10), position = (0, 44 / 10, - 5)\<rparr>],
      Slab 3 [\<lparr>kind = SlabMesh, box = (10, 2 / 10, 10), position = (0, 29 / 10, - 5)\<rparr>],
      FloorLevel 6
        [\<lparr>kind = RoomMesh Living, box = (10, 28 / 10, 10), position = (0, 74 / 10, - 5)\<rparr>],
      Slab 6 [\<lparr>kind = SlabMesh, box = (10, 2 / 10, 10), position = (0, 59 / 10, - 5)\<rparr>],
      Slab 9 [\<lparr>kind = SlabMesh, box = (10, 2 / 10, 10), position = (0, 89 / 10, - 5)\<rparr>],
      Neighbors
        [\<lparr>kind = NeighborMesh, box = (10, 6, 20), position = (- (105 / 10), 3, 0)\<rparr>,
         \<lparr>kind = NeighborMesh, box = (10, 6, 20), position = (105 / 10, 3, 0)\<rparr>]]"

section \<open>Properties\<close>

subsection \<open>The validation of a reply\<close>

lemma truthy_defined: "truthy v \<Longrightarrow> \<exists>x. v = Some x"
  by (cases v) simp_all

lemma basic_validation_object:
  assumes "basic_validation (JObject fs) = Inr r"
  shows "r = JObject fs \<and> truthy (map_of fs ''buildingSummary'')
         \<and> truthy (map_of fs ''floorPlans'') \<and> map_of fs ''floorPlans'' \<noteq> Some (JArray [])"
  using assms
  by (auto simp: basic_validation_def split: if_splits option.splits sum.splits)

lemma basic_validation_Inr:
  assumes "basic_validation result = Inr r"
  shows "r = result \<and> (\<exists>fs bs fp. result = JObject fs \<and> map_of fs ''buildingSummary'' = Some bs
            \<and> truthy (Some bs) \<and> map_of fs ''floorPlans'' = Some fp \<and> truthy (Some fp)
            \<and> fp \<noteq> JArray [])"
proof (cases result)
  case (JObject fs)
  with assms have o: "r = JObject fs \<and> truthy (map_of fs ''buildingSummary'')
         \<and> truthy (map_of fs ''floorPlans'') \<and> map_of fs ''floorPlans'' \<noteq> Some (JArray [])"
    using basic_validation_object by blast
  then obtain bs fp where "map_of fs ''buildingSummary'' = Some bs" "map_of fs ''floorPlans'' = Some fp"
    using truthy_defined by blast
  with o JObject show ?thesis
    by auto
qed (use assms in \<open>auto simp: basic_validation_def split: if_splits option.splits sum.splits\<close>)

lemma basic_validation_Inl:
  "map_of fs ''buildingSummary'' = None \<or> map_of fs ''floorPlans'' = None
     \<or> map_of fs ''floorPlans'' = Some (JArray [])
   \<Longrightarrow> \<exists>e. basic_validation (JObject fs) = Inl e"
  by (auto simp: basic_validation_def split: if_splits option.splits sum.splits)

lemma read_all_length: "read_all f xs = Some ys \<Longrightarrow> length ys = length xs"
  by (induction xs arbitrary: ys) (auto split: option.splits)

lemma as_AnalysisResult_floorPlans:
  "as_AnalysisResult (JObject fs) = Some a \<Longrightarrow> map_of fs ''floorPlans'' = Some fp \<Longrightarrow> fp \<noteq> JArray []
   \<Longrightarrow> floorPlans a \<noteq> []"
  by (auto simp: as_AnalysisResult_def split: option.splits json.splits dest!: read_all_length)

lemma analyzeLand_Inr:
  "snd (analyzeLand ev w d nw ne) = Inr r \<Longrightarrow>
     \<exists>t. generateContent ev (analyzeLand_request w d nw ne) = Resolves (Some t)
        \<and> JSON_parse ev (trim t) = Some r \<and> basic_validation r = Inr r"
  by (auto simp: analyzeLand_def analyzeLand_try_def Let_def
           split: sum.splits api_result.splits option.splits dest: basic_validation_Inr)

lemma analyzeLand_Inl:
  "snd (analyzeLand ev w d nw ne) = Inl e \<Longrightarrow> e = failed_response"
  by (auto simp: analyzeLand_def Let_def split: sum.splits)

lemma analyzeLand_fails:
  "analyzeLand_try ev (analyzeLand_request w d nw ne) = Inl e \<Longrightarrow>
   analyzeLand ev w d nw ne =
     ([GenerateContent (analyzeLand_request w d nw ne), ConsoleError ''Gemini API Error:'' e],
      Inl failed_response)"
  by (simp add: analyzeLand_def Let_def)

text \<open>
  C1. For every reply that parses to an object: when the object has no
  \<^verbatim>\<open>buildingSummary\<close>, no \<^verbatim>\<open>floorPlans\<close>, or an empty \<^verbatim>\<open>floorPlans\<close> array,
  \<open>analyzeLand\<close> does not return it and fails with an error. So whatever \<open>analyzeLand\<close>
  returns is an object with a \<^verbatim>\<open>buildingSummary\<close> and a \<^verbatim>\<open>floorPlans\<close> that is not the
  empty array, and every \<open>AnalysisResult\<close> it returns has a non-empty list of floor plans.
\<close>

theorem analyzeLand_validates:
  "(generateContent ev (analyzeLand_request w d nw ne) = Resolves (Some t)
      \<and> JSON_parse ev (trim t) = Some (JObject fs)
      \<and> (map_of fs ''buildingSummary'' = None \<or> map_of fs ''floorPlans'' = None
           \<or> map_of fs ''floorPlans'' = Some (JArray []))
    \<longrightarrow> snd (analyzeLand ev w d nw ne) = Inl failed_response)
   \<and> (snd (analyzeLand ev w d nw ne) = Inr r
    \<longrightarrow> (\<exists>fs bs fp. r = JObject fs \<and> map_of fs ''buildingSummary'' = Some bs \<and> truthy (Some bs)
           \<and> map_of fs ''floorPlans'' = Some fp \<and> truthy (Some fp) \<and> fp \<noteq> JArray [])
        \<and> (\<forall>a. as_AnalysisResult r = Some a \<longrightarrow> floorPlans a \<noteq> []))"
proof (intro conjI impI)
  assume h: "generateContent ev (analyzeLand_request w d nw ne) = Resolves (Some t)
      \<and> JSON_parse ev (trim t) = Some (JObject fs)
      \<and> (map_of fs ''buildingSummary'' = None \<or> map_of fs ''floorPlans'' = None
           \<or> map_of fs ''floorPlans'' = Some (JArray []))"
  then obtain e where "basic_validation (JObject fs) = Inl e"
    using basic_validation_Inl by blast
  with h have "analyzeLand_try ev (analyzeLand_request w d nw ne) = Inl e"
    by (simp add: analyzeLand_try_def)
  then show "snd (analyzeLand ev w d nw ne) = Inl failed_response"
    by (simp add: analyzeLand_fails)
next
  assume r: "snd (analyzeLand ev w d nw ne) = Inr r"
  then have v: "basic_validation r = Inr r"
    using analyzeLand_Inr by blast
  then show "\<exists>fs bs fp. r = JObject fs \<and> map_of fs ''buildingSummary'' = Some bs \<and> truthy (Some bs)
           \<and> map_of fs ''floorPlans'' = Some fp \<and> truthy (Some fp) \<and> fp \<noteq> JArray []"
    using basic_validation_Inr by blast
next
  assume r: "snd (analyzeLand ev w d nw ne) = Inr r"
  then have v: "basic_validation r = Inr r"
    using analyzeLand_Inr by blast
  show "\<forall>a. as_AnalysisResult r = Some a \<longrightarrow> floorPlans a \<noteq> []"
    using basic_validation_Inr [OF v] as_AnalysisResult_floorPlans by blast
qed

lemma as_Room_room_json:
  "as_Room (room_json n t a px py w h) =
     (case as_RoomType (Some (JString t)) of
        Some ty \<Rightarrow> Some (mkRoom n ty a px py w h) | None \<Rightarrow> None)"
  by (simp add: as_Room_def room_json_def as_string_def as_number_def as_Layout_def mkRoom_def
           split: option.splits)

lemma as_FloorPlan_plan_json:
  "as_FloorPlan (plan_json l rs) =
     (case read_all as_Room rs of Some rs' \<Rightarrow> Some \<lparr>level = l, rooms = rs'\<rparr> | None \<Rightarrow> None)"
  by (simp add: as_FloorPlan_def plan_json_def as_number_def)

lemma as_AnalysisResult_reply: "as_AnalysisResult reply_json = Some reply_result"
  by (simp add: as_AnalysisResult_def reply_json_def as_BuildingSummary_def as_string_def
        as_number_def as_FloorPlan_plan_json as_Room_room_json as_RoomType_def
        reply_result_def plan0_def plan1_def plan2_def)

lemma analyzeLand_reply:
  "snd (analyzeLand (env_replying reply_text reply_json) w d nw ne) = Inr reply_json"
  by (simp add: analyzeLand_def analyzeLand_try_def env_replying_def Let_def
        basic_validation_def reply_json_def)

text \<open>
  A reply \<^verbatim>\<open>{}\<close> is refused; the reply of three floors is returned, and read at the
  interface it has three floor plans.
\<close>

theorem analyzeLand_validates_witness:
  "snd (analyzeLand (env_replying ''{}'' (JObject [])) 10 20 2 2) = Inl failed_response
   \<and> snd (analyzeLand (env_replying reply_text reply_json) 10 20 2 2) = Inr reply_json
   \<and> as_AnalysisResult reply_json = Some reply_result
   \<and> floorPlans reply_result \<noteq> []"
proof -
  have a: "generateContent (env_replying ''{}'' (JObject [])) (analyzeLand_request 10 20 2 2)
             = Resolves (Some ''{}'')
           \<and> JSON_parse (env_replying ''{}'' (JObject [])) (trim ''{}'') = Some (JObject [])
           \<and> (map_of [] ''buildingSummary'' = (None :: json option)
                \<or> map_of [] ''floorPlans'' = (None :: json option)
                \<or> map_of [] ''floorPlans'' = Some (JArray []))"
    by (simp add: env_replying_def)
  have b: "snd (analyzeLand (env_replying reply_text reply_json) 10 20 2 2) = Inr reply_json"
    by (rule analyzeLand_reply)
  have c: "as_AnalysisResult reply_json = Some reply_result"
    by (rule as_AnalysisResult_reply)
  from analyzeLand_validates
         [of "env_replying ''{}'' (JObject [])" 10 20 2 2 "''{}''" "[]" "JNull"] a
  have 1: "snd (analyzeLand (env_replying ''{}'' (JObject [])) 10 20 2 2) = Inl failed_response"
    by blast
  from analyzeLand_validates
         [of "env_replying reply_text reply_json" 10 20 2 2 "[]" "[]" reply_json] b c
  have 2: "floorPlans reply_result \<noteq> []"
    by blast
  from 1 b c 2 show ?thesis
    by blast
qed

subsection \<open>The errors of analyzeLand\<close>

text \<open>
  C2, as amended. A rejected model call, a reply that does not parse and a parsed object
  without a required field all make \<open>analyzeLand\<close> fail with the same error,
  \<open>failed_response\<close>; what went wrong is written to the console only.
\<close>

theorem analyzeLand_one_error:
  "(generateContent ev (analyzeLand_request w d nw ne) = Rejects e
      \<longrightarrow> analyzeLand ev w d nw ne =
            ([GenerateContent (analyzeLand_request w d nw ne),
              ConsoleError ''Gemini API Error:'' e], Inl failed_response))
   \<and> (generateContent ev (analyzeLand_request w d nw ne) = Resolves (Some t)
        \<and> JSON_parse ev (trim t) = None
      \<longrightarrow> analyzeLand ev w d nw ne =
            ([GenerateContent (analyzeLand_request w d nw ne),
              ConsoleError ''Gemini API Error:'' SyntaxError], Inl failed_response))
   \<and> (generateContent ev (analyzeLand_request w d nw ne) = Resolves (Some t)
        \<and> JSON_parse ev (trim t) = Some (JObject fs)
        \<and> (map_of fs ''buildingSummary'' = None \<or> map_of fs ''floorPlans'' = None)
      \<longrightarrow> analyzeLand ev w d nw ne =
            ([GenerateContent (analyzeLand_request w d nw ne),
              ConsoleError ''Gemini API Error:'' invalid_data], Inl failed_response))"
  by (auto simp: analyzeLand_fails analyzeLand_try_def basic_validation_def
           split: option.splits)

text \<open>An unreachable service, a reply that is not JSON and the reply \<^verbatim>\<open>{}\<close>.\<close>

theorem analyzeLand_one_error_witness:
  "snd (analyzeLand env_offline 10 20 2 2) = Inl failed_response
   \<and> snd (analyzeLand env_unparsable 10 20 2 2) = Inl failed_response
   \<and> snd (analyzeLand (env_replying ''{}'' (JObject [])) 10 20 2 2) = Inl failed_response"
proof -
  have a: "generateContent env_offline (analyzeLand_request 10 20 2 2)
             = Rejects (ApiError ''fetch failed'')"
    by (simp add: env_offline_def)
  have b: "generateContent env_unparsable (analyzeLand_request 10 20 2 2)
             = Resolves (Some ''Service Unavailable'')
           \<and> JSON_parse env_unparsable (trim ''Service Unavailable'') = None"
    by (simp add: env_unparsable_def)
  have c: "generateContent (env_replying ''{}'' (JObject [])) (analyzeLand_request 10 20 2 2)
             = Resolves (Some ''{}'')
           \<and> JSON_parse (env_replying ''{}'' (JObject [])) (trim ''{}'') = Some (JObject [])
           \<and> (map_of [] ''buildingSummary'' = (None :: json option)
                \<or> map_of [] ''floorPlans'' = (None :: json option))"
    by (simp add: env_replying_def)
  from analyzeLand_one_error
         [of env_offline 10 20 2 2 "ApiError ''fetch failed''" "[]" "[]"] a
  have 1: "snd (analyzeLand env_offline 10 20 2 2) = Inl failed_response"
    by simp
  from analyzeLand_one_error
         [of env_unparsable 10 20 2 2 TypeError "''Service Unavailable''" "[]"] b
  have 2: "snd (analyzeLand env_unparsable 10 20 2 2) = Inl failed_response"
    by simp
  from analyzeLand_one_error
         [of "env_replying ''{}'' (JObject [])" 10 20 2 2 TypeError "''{}''" "[]"] c
  have 3: "snd (analyzeLand (env_replying ''{}'' (JObject [])) 10 20 2 2) = Inl failed_response"
    by simp
  from 1 2 3 show ?thesis
    by simp
qed

text \<open>
  C2 as stated fails: the caller gets the same error for a reply that is not JSON, for a
  reply without the required fields and for an unreachable service.
\<close>

theorem analyzeLand_errors_counterexample:
  "snd (analyzeLand env_unparsable 10 20 2 2) = snd (analyzeLand env_offline 10 20 2 2)
   \<and> snd (analyzeLand (env_replying ''{}'' (JObject [])) 10 20 2 2)
       = snd (analyzeLand env_offline 10 20 2 2)"
  by (simp add: analyzeLand_def analyzeLand_try_def Let_def env_offline_def env_unparsable_def
        env_replying_def basic_validation_def)

subsection \<open>The bounding box of a scaled polygon\<close>





























subsection \<open>The building scene\<close>

lemma floorsLoop_done:
  "\<not> real i < n \<Longrightarrow> floorsLoop c n g t landW landD i acc = acc"
  by (subst floorsLoop.simps) (simp del: floorsLoop.simps)

lemma floorsLoop_step:
  "real i < n \<Longrightarrow>
   floorsLoop c n g t landW landD i acc
     = floorsLoop c n g t landW landD (Suc i)
         (acc @ FloorLevel (real i * FLOOR_HEIGHT c)
                  (renderFloor c (if i = 0 then g else t) (real i * FLOOR_HEIGHT c) landW landD True)
              # (if i > 0
                 then [Slab (real i * FLOOR_HEIGHT c)
                         (renderSlab c (real i * FLOOR_HEIGHT c) landW landD
                            (if i = 0 then g else t))]
                 else []))"
  by (subst floorsLoop.simps) (simp add: Let_def del: floorsLoop.simps)

lemma floorsLoop_upper:
  assumes "0 < i"
  shows "i \<le> N \<Longrightarrow> floorsLoop c (real N) g t landW landD i acc
           = acc @ concat (map (levelParts c t landW landD) [i..<N])"
  using assms
proof (induction "N - i" arbitrary: i acc)
  case 0
  then have "i = N" by simp
  then show ?case by (simp add: floorsLoop_done del: floorsLoop.simps)
next
  case (Suc m)
  then have lt: "i < N" and m: "m = N - Suc i" and le: "Suc i \<le> N" and pos: "0 < i"
    by simp_all
  from Suc.hyps(1) [OF m le]
  have ih: "\<And>acc. floorsLoop c (real N) g t landW landD (Suc i) acc
              = acc @ concat (map (levelParts c t landW landD) [Suc i..<N])"
    by simp
  from lt have "real i < real N"
    by simp
  then have "floorsLoop c (real N) g t landW landD i acc
      = floorsLoop c (real N) g t landW landD (Suc i) (acc @ levelParts c t landW landD i)"
    using pos by (simp add: floorsLoop_step levelParts_def del: floorsLoop.simps)
  also have "\<dots> = (acc @ levelParts c t landW landD i)
                     @ concat (map (levelParts c t landW landD) [Suc i..<N])"
    by (rule ih)
  also from lt have "\<dots> = acc @ concat (map (levelParts c t landW landD) [i..<N])"
    by (simp add: upt_conv_Cons del: floorsLoop.simps)
  finally show ?case .
qed

lemma floorsLoop_all:
  assumes "1 \<le> N"
  shows "floorsLoop c (real N) g t landW landD 0 []
           = FloorLevel 0 (renderFloor c g 0 landW landD True)
             # concat (map (levelParts c t landW landD) [1..<N])"
proof -
  from assms have "real 0 < real N"
    by simp
  then have "floorsLoop c (real N) g t landW landD 0 []
      = floorsLoop c (real N) g t landW landD (Suc 0)
          [FloorLevel 0 (renderFloor c g 0 landW landD True)]"
    by (simp add: floorsLoop_step del: floorsLoop.simps)
  also from assms have "\<dots> = [FloorLevel 0 (renderFloor c g 0 landW landD True)]
                     @ concat (map (levelParts c t landW landD) [Suc 0..<N])"
    by (intro floorsLoop_upper) simp_all
  finally show ?thesis
    by (simp del: floorsLoop.simps)
qed

lemma slabRooms_filter:
  "slabRooms c e landW landD rs
     = map (slabPiece c e landW landD) (filter (\<lambda>room. room_type room \<noteq> Void) rs)"
  by (induction rs) simp_all

lemma floorRooms_building:
  "floorRooms c h e landW landD True rs
     = concat (map (roomObjects c h e landW landD) (filter (\<lambda>room. room_type room \<noteq> Void) rs))"
  by (induction rs) simp_all

lemma js_index_first: "plans \<noteq> [] \<Longrightarrow> js_index plans 0 = Some (plans ! 0)"
  by (simp add: js_index_def)

lemma typicalPlan_nonempty:
  assumes "plans \<noteq> []"
  shows "typicalPlan plans
           = Some (case find (\<lambda>p. level p > 0) plans of Some p \<Rightarrow> p | None \<Rightarrow> plans ! 0)"
proof (cases "length plans > 1")
  case True
  with assms show ?thesis
    by (simp add: typicalPlan_def js_index_first split: option.splits)
next
  case False
  with assms obtain p where "plans = [p]"
    by (cases plans) auto
  then show ?thesis
    by (simp add: typicalPlan_def js_index_def)
qed

lemma groundPlan_nonempty:
  "plans \<noteq> [] \<Longrightarrow>
   groundPlan plans
     = Some (case find (\<lambda>p. level p = 0) plans of Some p \<Rightarrow> p | None \<Rightarrow> plans ! 0)"
  by (simp add: groundPlan_def js_index_first split: option.splits)

lemma floorRooms_explicit:
  "floorRooms c (FLOOR_HEIGHT c - roomInset c) (real i * FLOOR_HEIGHT c) landW landD True rs
     = concat (map (\<lambda>room. if edgeLines c
                            then [meshAt c landW landD i room, edgesAt c landW landD i room]
                            else [meshAt c landW landD i room])
                 (filter (\<lambda>room. room_type room \<noteq> Void) rs))"
  by (induction rs) (simp_all add: roomObjects_def meshAt_def edgesAt_def Let_def)

lemma renderFloor_explicit:
  "renderFloor c p (real i * FLOOR_HEIGHT c) landW landD True = floorObjs c landW landD i p"
  by (simp add: renderFloor_def floorObjs_def solid_def floorRooms_explicit)

lemma renderSlab_explicit:
  "renderSlab c (real i * FLOOR_HEIGHT c) landW landD p = slabObjs c landW landD i p"
  by (simp add: renderSlab_def slabObjs_def solid_def slabRooms_filter slabPiece_def pieceAt_def
        Let_def)

lemma levelParts_explicit:
  "levelParts c t landW landD i
     = [FloorLevel (real i * FLOOR_HEIGHT c) (floorObjs c landW landD i t),
        Slab (real i * FLOOR_HEIGHT c) (slabObjs c landW landD i t)]"
  by (simp add: levelParts_def renderFloor_explicit renderSlab_explicit)

lemma scene_explicit:
  assumes "floorPlans r \<noteq> []" and "totalFloors (buildingSummary r) = real N" and "1 \<le> N"
    and "g = (case find (\<lambda>p. level p = 0) (floorPlans r) of
                Some p \<Rightarrow> p | None \<Rightarrow> floorPlans r ! 0)"
    and "t = (case find (\<lambda>p. level p > 0) (floorPlans r) of
                Some p \<Rightarrow> p | None \<Rightarrow> floorPlans r ! 0)"
  shows "createBuildingScene c (Some r) neighborWest neighborEast landW landD
           = Inr (FloorLevel (real 0 * FLOOR_HEIGHT c) (floorObjs c landW landD 0 g)
                  # concat (map (\<lambda>i. [FloorLevel (real i * FLOOR_HEIGHT c)
                                         (floorObjs c landW landD i t),
                                       Slab (real i * FLOOR_HEIGHT c)
                                         (slabObjs c landW landD i t)])
                              [1..<N])
                  @ [Slab (real N * FLOOR_HEIGHT c) (slabObjs c landW landD N t),
                     Neighbors (renderNeighbors c landW landD neighborWest neighborEast)])"
proof -
  have gp: "groundPlan (floorPlans r) = Some g"
    using assms(1,4) by (simp add: groundPlan_nonempty)
  have tp: "typicalPlan (floorPlans r) = Some t"
    using assms(1,5) by (simp add: typicalPlan_nonempty)
  have lp: "levelParts c t landW landD
              = (\<lambda>i. [FloorLevel (real i * FLOOR_HEIGHT c) (floorObjs c landW landD i t),
                       Slab (real i * FLOOR_HEIGHT c) (slabObjs c landW landD i t)])"
    by (rule ext) (rule levelParts_explicit)
  have g0: "renderFloor c g 0 landW landD True = floorObjs c landW landD 0 g"
    using renderFloor_explicit [of c g 0 landW landD] by simp
  have "createBuildingScene c (Some r) neighborWest neighborEast landW landD
      = Inr (floorsLoop c (real N) g t landW landD 0 []
             @ [Slab (real N * FLOOR_HEIGHT c)
                  (renderSlab c (real N * FLOOR_HEIGHT c) landW landD t),
                Neighbors (renderNeighbors c landW landD neighborWest neighborEast)])"
    using gp tp assms(2) by (simp add: createBuildingScene_def Let_def)
  then show ?thesis
    by (simp add: floorsLoop_all [OF assms(3)] lp g0 renderSlab_explicit)
qed

lemma objects_Nil: "objects [] = []"
  by (simp add: objects_def)

lemma objects_Cons:
  "objects (FloorLevel e obs # ps) = obs @ objects ps"
  "objects (Slab e obs # ps) = obs @ objects ps"
  "objects (Neighbors obs # ps) = obs @ objects ps"
  by (simp_all add: objects_def)

lemma objects_append: "objects (ps @ qs) = objects ps @ objects qs"
  by (simp add: objects_def)

lemma objects_levels:
  "objects (concat (map (\<lambda>i. [FloorLevel (e i) (f i), Slab (e i) (s i)]) ns))
     = concat (map (\<lambda>i. f i @ s i) ns)"
  by (induction ns) (simp_all add: objects_Nil objects_Cons objects_append)

lemma concat_select:
  "concat (map (\<lambda>i. if i = j then X i else []) [a..<b]) = (if a \<le> j \<and> j < b then X j else [])"
  by (induction b) auto

lemma level_eq: "H \<noteq> 0 \<Longrightarrow> (real i * H = real j * H) = (i = j)"
  by simp

lemma room_meshes_of_floor:
  assumes "FLOOR_HEIGHT c \<noteq> 0"
  shows "filter (\<lambda>ob. isRoomMesh ob \<and> bottom_face ob = real j * FLOOR_HEIGHT c)
           (floorObjs c landW landD i p)
         = (if i = j then map (meshAt c landW landD i) (solid p) else [])"
proof -
  have "filter (\<lambda>ob. isRoomMesh ob \<and> bottom_face ob = real j * FLOOR_HEIGHT c)
          (concat (map (\<lambda>room. if edgeLines c
                                 then [meshAt c landW landD i room, edgesAt c landW landD i room]
                                 else [meshAt c landW landD i room]) rs))
        = (if i = j then map (meshAt c landW landD i) rs else [])" for rs
    using assms
    by (induction rs)
       (simp_all add: isRoomMesh_def bottom_face_def meshAt_def edgesAt_def)
  then show ?thesis
    by (simp add: floorObjs_def)
qed

lemma room_meshes_of_slab:
  "filter (\<lambda>ob. isRoomMesh ob \<and> Q ob) (slabObjs c landW landD i p) = []"
  by (simp add: slabObjs_def isRoomMesh_def pieceAt_def)

lemma room_meshes_of_neighbors:
  "filter (\<lambda>ob. isRoomMesh ob \<and> Q ob) (renderNeighbors c landW landD nw ne) = []"
  by (simp add: renderNeighbors_def neighbor_def isRoomMesh_def Let_def)

lemma slab_pieces_of_floor:
  "filter (\<lambda>ob. kind ob = SlabMesh \<and> Q ob) (floorObjs c landW landD i p) = []"
proof -
  have "filter (\<lambda>ob. kind ob = SlabMesh \<and> Q ob)
          (concat (map (\<lambda>room. if edgeLines c
                                 then [meshAt c landW landD i room, edgesAt c landW landD i room]
                                 else [meshAt c landW landD i room]) rs)) = []" for rs
    by (induction rs) (simp_all add: meshAt_def edgesAt_def)
  then show ?thesis
    by (simp add: floorObjs_def)
qed

lemma slab_pieces_of_slab:
  assumes "FLOOR_HEIGHT c \<noteq> 0"
  shows "filter (\<lambda>ob. kind ob = SlabMesh \<and> top_face ob = real j * FLOOR_HEIGHT c)
           (slabObjs c landW landD i p)
         = (if i = j then slabObjs c landW landD i p else [])"
  using assms by (simp add: slabObjs_def pieceAt_def top_face_def filter_empty_conv)

lemma slab_pieces_of_neighbors:
  "filter (\<lambda>ob. kind ob = SlabMesh \<and> Q ob) (renderNeighbors c landW landD nw ne) = []"
  by (simp add: renderNeighbors_def neighbor_def Let_def)

lemma scene_room_meshes:
  assumes "FLOOR_HEIGHT c \<noteq> 0" and "1 \<le> N"
  shows "filter (\<lambda>ob. isRoomMesh ob \<and> bottom_face ob = real j * FLOOR_HEIGHT c)
           (objects (FloorLevel (real 0 * FLOOR_HEIGHT c) (floorObjs c landW landD 0 g)
                  # concat (map (\<lambda>i. [FloorLevel (real i * FLOOR_HEIGHT c)
                                         (floorObjs c landW landD i t),
                                       Slab (real i * FLOOR_HEIGHT c)
                                         (slabObjs c landW landD i t)])
                              [1..<N])
                  @ [Slab (real N * FLOOR_HEIGHT c) (slabObjs c landW landD N t),
                     Neighbors (renderNeighbors c landW landD nw ne)]))
         = (if j < N then map (meshAt c landW landD j) (solid (if j = 0 then g else t)) else [])"
proof -
  let ?P = "\<lambda>ob. isRoomMesh ob \<and> bottom_face ob = real j * FLOOR_HEIGHT c"
  have mid: "filter ?P (concat (map (\<lambda>i. floorObjs c landW landD i t @ slabObjs c landW landD i t)
                                  [1..<N]))
             = (if 1 \<le> j \<and> j < N then map (meshAt c landW landD j) (solid t) else [])"
  proof -
    have "filter ?P (concat (map (\<lambda>i. floorObjs c landW landD i t @ slabObjs c landW landD i t)
                               [1..<N]))
          = concat (map (\<lambda>i. if i = j then map (meshAt c landW landD i) (solid t) else [])
                      [1..<N])"
      by (simp add: filter_concat comp_def room_meshes_of_floor [OF assms(1)]
            room_meshes_of_slab)
    then show ?thesis
      by (simp only: concat_select)
  qed
  have "filter ?P (objects (FloorLevel (real 0 * FLOOR_HEIGHT c) (floorObjs c landW landD 0 g)
                  # concat (map (\<lambda>i. [FloorLevel (real i * FLOOR_HEIGHT c)
                                         (floorObjs c landW landD i t),
                                       Slab (real i * FLOOR_HEIGHT c)
                                         (slabObjs c landW landD i t)])
                              [1..<N])
                  @ [Slab (real N * FLOOR_HEIGHT c) (slabObjs c landW landD N t),
                     Neighbors (renderNeighbors c landW landD nw ne)]))
        = filter ?P (floorObjs c landW landD 0 g)
          @ filter ?P (concat (map (\<lambda>i. floorObjs c landW landD i t
                                           @ slabObjs c landW landD i t) [1..<N]))"
    by (simp only: objects_Cons objects_append objects_levels objects_Nil filter_append
          room_meshes_of_slab room_meshes_of_neighbors append_Nil2)
  also have "\<dots> = (if 0 = j then map (meshAt c landW landD 0) (solid g) else [])
                  @ (if 1 \<le> j \<and> j < N then map (meshAt c landW landD j) (solid t) else [])"
    by (simp only: room_meshes_of_floor [OF assms(1)] mid)
  also have "\<dots> = (if j < N then map (meshAt c landW landD j) (solid (if j = 0 then g else t))
                      else [])"
    using assms(2) by (cases "j = 0") auto
  finally show ?thesis .
qed

lemma scene_slab_pieces:
  assumes "FLOOR_HEIGHT c \<noteq> 0" and "1 \<le> N"
  shows "filter (\<lambda>ob. kind ob = SlabMesh \<and> top_face ob = real j * FLOOR_HEIGHT c)
           (objects (FloorLevel (real 0 * FLOOR_HEIGHT c) (floorObjs c landW landD 0 g)
                  # concat (map (\<lambda>i. [FloorLevel (real i * FLOOR_HEIGHT c)
                                         (floorObjs c landW landD i t),
                                       Slab (real i * FLOOR_HEIGHT c)
                                         (slabObjs c landW landD i t)])
                              [1..<N])
                  @ [Slab (real N * FLOOR_HEIGHT c) (slabObjs c landW landD N t),
                     Neighbors (renderNeighbors c landW landD nw ne)]))
         = (if 1 \<le> j \<and> j \<le> N then slabObjs c landW landD j t else [])"
proof -
  let ?Q = "\<lambda>ob. kind ob = SlabMesh \<and> top_face ob = real j * FLOOR_HEIGHT c"
  have mid: "filter ?Q (concat (map (\<lambda>i. floorObjs c landW landD i t @ slabObjs c landW landD i t)
                                  [1..<N]))
             = (if 1 \<le> j \<and> j < N then slabObjs c landW landD j t else [])"
  proof -
    have "filter ?Q (concat (map (\<lambda>i. floorObjs c landW landD i t @ slabObjs c landW landD i t)
                               [1..<N]))
          = concat (map (\<lambda>i. if i = j then slabObjs c landW landD i t else []) [1..<N])"
      by (simp add: filter_concat comp_def slab_pieces_of_slab [OF assms(1)]
            slab_pieces_of_floor)
    then show ?thesis
      by (simp only: concat_select)
  qed
  have "filter ?Q (objects (FloorLevel (real 0 * FLOOR_HEIGHT c) (floorObjs c landW landD 0 g)
                  # concat (map (\<lambda>i. [FloorLevel (real i * FLOOR_HEIGHT c)
                                         (floorObjs c landW landD i t),
                                       Slab (real i * FLOOR_HEIGHT c)
                                         (slabObjs c landW landD i t)])
                              [1..<N])
                  @ [Slab (real N * FLOOR_HEIGHT c) (slabObjs c landW landD N t),
                     Neighbors (renderNeighbors c landW landD nw ne)]))
        = filter ?Q (concat (map (\<lambda>i. floorObjs c landW landD i t
                                         @ slabObjs c landW landD i t) [1..<N]))
          @ filter ?Q (slabObjs c landW landD N t)"
    by (simp only: objects_Cons objects_append objects_levels objects_Nil filter_append
          slab_pieces_of_floor slab_pieces_of_neighbors append_Nil2 append_Nil)
  also have "\<dots> = (if 1 \<le> j \<and> j < N then slabObjs c landW landD j t else [])
                  @ (if N = j then slabObjs c landW landD N t else [])"
    by (simp only: slab_pieces_of_slab [OF assms(1)] mid)
  also have "\<dots> = (if 1 \<le> j \<and> j \<le> N then slabObjs c landW landD j t else [])"
    using assms(2) by auto
  finally show ?thesis .
qed

text \<open>
  C4. For a result with a non-empty list of floor plans and \<open>totalFloors = N\<close>, \<open>N \<ge> 1\<close>,
  the scene that \<open>createBuildingScene\<close> builds is, in this order: the ground floor, from
  the first plan of level 0 (or the first plan); for every level \<open>i\<close> from 1 to \<open>N - 1\<close> a
  floor followed by a slab, both from the first plan with level above 0 (or the first
  plan); one roof slab at level \<open>N\<close> from that same plan; the neighbours. The floor of
  level \<open>i\<close> has, for each room of its plan that is not a void, a box over the room's
  footprint standing on elevation \<open>i * FLOOR_HEIGHT\<close> and \<open>FLOOR_HEIGHT - roomInset\<close> high
  (with its outline in the revision that draws outlines). The slab of level \<open>i\<close> has, for
  each room that is not a void, a piece over the room's footprint, \<open>slabThickness\<close> thick,
  with its upper face at elevation \<open>i * FLOOR_HEIGHT\<close>. Read off the scene: the room meshes
  standing on elevation \<open>i * FLOOR_HEIGHT\<close> are those of the floor of level \<open>i\<close> for
  \<open>i < N\<close> and none for any other \<open>i\<close>; the slab pieces with their upper face at
  elevation \<open>i * FLOOR_HEIGHT\<close> are those of the slab of level \<open>i\<close> for \<open>1 \<le> i \<le> N\<close> and
  none for any other \<open>i\<close>.
\<close>

theorem createBuildingScene_floors:
  assumes "floorPlans r \<noteq> []" and "totalFloors (buildingSummary r) = real N" and "1 \<le> N"
  shows
    "let H = FLOOR_HEIGHT c;
         h = FLOOR_HEIGHT c - roomInset c;
         th = slabThickness c;
         g = (case find (\<lambda>p. level p = 0) (floorPlans r) of
                Some p \<Rightarrow> p | None \<Rightarrow> floorPlans r ! 0);
         t = (case find (\<lambda>p. level p > 0) (floorPlans r) of
                Some p \<Rightarrow> p | None \<Rightarrow> floorPlans r ! 0);
         built = (\<lambda>p. filter (\<lambda>room. room_type room \<noteq> Void) (rooms p));
         wd = (\<lambda>room. layout_width (layout room) / 100 * landW);
         dp = (\<lambda>room. layout_height (layout room) / 100 * landD);
         cx = (\<lambda>room. layout_x (layout room) / 100 * landW + wd room / 2 - landW / 2);
         cz = (\<lambda>room. layout_y (layout room) / 100 * landD + dp room / 2 - landD / 2);
         mesh = (\<lambda>i room. \<lparr>kind = RoomMesh (room_type room), box = (wd room, h, dp room),
                             position = (cx room, real i * H + h / 2, cz room)\<rparr>);
         outline = (\<lambda>i room. \<lparr>kind = RoomEdges (room_type room), box = (wd room, h, dp room),
                                position = (cx room, real i * H + h / 2, cz room)\<rparr>);
         piece = (\<lambda>i room. \<lparr>kind = SlabMesh, box = (wd room, th, dp room),
                              position = (cx room, real i * H - th / 2, cz room)\<rparr>);
         level_at = (\<lambda>i p. FloorLevel (real i * H)
                       (concat (map (\<lambda>room. if edgeLines c then [mesh i room, outline i room]
                                             else [mesh i room]) (built p))));
         slab_at = (\<lambda>i p. Slab (real i * H) (map (piece i) (built p)))
     in \<exists>parts.
          createBuildingScene c (Some r) neighborWest neighborEast landW landD = Inr parts
          \<and> parts = level_at 0 g
                     # concat (map (\<lambda>i. [level_at i t, slab_at i t]) [1..<N])
                     @ [slab_at N t,
                        Neighbors (renderNeighbors c landW landD neighborWest neighborEast)]
          \<and> (H \<noteq> 0 \<longrightarrow>
               (\<forall>i. filter (\<lambda>ob. isRoomMesh ob \<and> bottom_face ob = real i * H) (objects parts)
                      = (if i < N then map (mesh i) (built (if i = 0 then g else t)) else []))
               \<and> (\<forall>i. filter (\<lambda>ob. kind ob = SlabMesh \<and> top_face ob = real i * H) (objects parts)
                        = (if 1 \<le> i \<and> i \<le> N then map (piece i) (built t) else [])))"
proof -
  define g where "g = (case find (\<lambda>p. level p = 0) (floorPlans r) of
                         Some p \<Rightarrow> p | None \<Rightarrow> floorPlans r ! 0)"
  define t where "t = (case find (\<lambda>p. level p > 0) (floorPlans r) of
                         Some p \<Rightarrow> p | None \<Rightarrow> floorPlans r ! 0)"
  note scene = scene_explicit [OF assms g_def t_def, of c neighborWest neighborEast landW landD]
  have rooms: "\<forall>i. filter (\<lambda>ob. isRoomMesh ob \<and> bottom_face ob = real i * FLOOR_HEIGHT c)
                      (objects (FloorLevel (real 0 * FLOOR_HEIGHT c) (floorObjs c landW landD 0 g)
                  # concat (map (\<lambda>i. [FloorLevel (real i * FLOOR_HEIGHT c)
                                         (floorObjs c landW landD i t),
                                       Slab (real i * FLOOR_HEIGHT c)
                                         (slabObjs c landW landD i t)])
                              [1..<N])
                  @ [Slab (real N * FLOOR_HEIGHT c) (slabObjs c landW landD N t),
                     Neighbors (renderNeighbors c landW landD neighborWest neighborEast)]))
         = (if i < N then map (meshAt c landW landD i) (solid (if i = 0 then g else t)) else [])"
    if "FLOOR_HEIGHT c \<noteq> 0"
    using scene_room_meshes [OF that assms(3)] by blast
  have slabs: "\<forall>i. filter (\<lambda>ob. kind ob = SlabMesh \<and> top_face ob = real i * FLOOR_HEIGHT c)
                      (objects (FloorLevel (real 0 * FLOOR_HEIGHT c) (floorObjs c landW landD 0 g)
                  # concat (map (\<lambda>i. [FloorLevel (real i * FLOOR_HEIGHT c)
                                         (floorObjs c landW landD i t),
                                       Slab (real i * FLOOR_HEIGHT c)
                                         (slabObjs c landW landD i t)])
                              [1..<N])
                  @ [Slab (real N * FLOOR_HEIGHT c) (slabObjs c landW landD N t),
                     Neighbors (renderNeighbors c landW landD neighborWest neighborEast)]))
         = (if 1 \<le> i \<and> i \<le> N then slabObjs c landW landD i t else [])"
    if "FLOOR_HEIGHT c \<noteq> 0"
    using scene_slab_pieces [OF that assms(3)] by blast
  from scene rooms slabs show ?thesis
    unfolding Let_def g_def [symmetric] t_def [symmetric]
      floorObjs_def slabObjs_def solid_def meshAt_def edgesAt_def pieceAt_def
    by blast
qed

text \<open>
  The reply of three floors with two rooms on each, in the named revision: three floors
  standing on 0, 3 and 6, slabs with their upper faces at 3 and 6, and one roof slab with
  its upper face at 9. The void of the typical plan has no box and no slab piece.
\<close>

theorem createBuildingScene_floors_witness:
  "floorPlans reply_result \<noteq> [] \<and> totalFloors (buildingSummary reply_result) = real 3
   \<and> createBuildingScene consts_named (Some reply_result) 2 2 10 20 = Inr three_floor_scene
   \<and> filter (\<lambda>ob. isRoomMesh ob \<and> bottom_face ob = 6) (objects three_floor_scene)
       = [\<lparr>kind = RoomMesh Living, box = (10, 28 / 10, 10), position = (0, 74 / 10, - 5)\<rparr>]
   \<and> filter (\<lambda>ob. kind ob = SlabMesh \<and> top_face ob = 9) (objects three_floor_scene)
       = [\<lparr>kind = SlabMesh, box = (10, 2 / 10, 10), position = (0, 89 / 10, - 5)\<rparr>]"
proof -
  have h: "floorPlans reply_result \<noteq> []" "totalFloors (buildingSummary reply_result) = real 3"
    "1 \<le> (3 :: nat)"
    by (simp_all add: reply_result_def)
  have g: "find (\<lambda>p. level p = 0) (floorPlans reply_result) = Some plan0"
    by (simp add: reply_result_def plan0_def)
  have t: "find (\<lambda>p. level p > 0) (floorPlans reply_result) = Some plan1"
    by (simp add: reply_result_def plan0_def plan1_def)
  have c: "FLOOR_HEIGHT consts_named = 3" "roomInset consts_named = 2 / 10"
    "slabThickness consts_named = 2 / 10" "edgeLines consts_named = False"
    by (simp_all add: consts_named_def)
  have u: "[Suc 0..<3] = [Suc 0, 2]"
    by (simp add: upt_rec)
  have nb: "renderNeighbors consts_named 10 20 2 2
              = [\<lparr>kind = NeighborMesh, box = (10, 6, 20), position = (- (105 / 10), 3, 0)\<rparr>,
                 \<lparr>kind = NeighborMesh, box = (10, 6, 20), position = (105 / 10, 3, 0)\<rparr>]"
    by (simp add: renderNeighbors_def neighbor_def consts_named_def Let_def)
  have nz: "(3 :: real) \<noteq> 0"
    by simp
  note floors = createBuildingScene_floors
                  [OF h, where c = consts_named and neighborWest = 2 and neighborEast = 2
                      and landW = 10 and landD = 20,
                   unfolded Let_def g t c option.case]
  from floors show ?thesis
  proof (elim exE conjE, goal_cases)
    case (1 parts)
    from 1(2) have p: "parts = three_floor_scene"
      by (simp add: u nb plan0_def plan1_def mkRoom_def three_floor_scene_def)
    from 1(3) [THEN mp, OF nz, THEN conjunct1, THEN spec, of 2]
    have m: "filter (\<lambda>ob. isRoomMesh ob \<and> bottom_face ob = 6) (objects parts)
       = [\<lparr>kind = RoomMesh Living, box = (10, 28 / 10, 10), position = (0, 74 / 10, - 5)\<rparr>]"
      by (simp add: plan1_def mkRoom_def)
    from 1(3) [THEN mp, OF nz, THEN conjunct2, THEN spec, of 3]
    have s: "filter (\<lambda>ob. kind ob = SlabMesh \<and> top_face ob = 9) (objects parts)
       = [\<lparr>kind = SlabMesh, box = (10, 2 / 10, 10), position = (0, 89 / 10, - 5)\<rparr>]"
      by (simp add: plan1_def mkRoom_def)
    from h 1(1) m s show ?case
      unfolding p by simp
  qed
qed

subsection \<open>A failed analysis\<close>

lemma analyzePlot_catch:
  assumes "final_dimensions st = Inr (w, d)"
    and "analyzeLand ev w d (neighborEastFloors st) (neighborWestFloors st) = (evs, Inl e)"
  shows "analyzePlot ev st =
           Completed
             (st\<lparr>landWidth := w, landDepth := d, step := Input, analysisResult := None,
                 errorMessage := Some MsgServiceError,
                 currentLoadingMessage := loadingMessageAfter loadingMessages (ticks ev)\<rparr>)
             ([SetInterval] @ evs @ [ConsoleError ''Error analyzing land:'' e, ClearInterval])"
  using assms by (simp add: analyzePlot_def Let_def)

lemma analyzePlot_earlier_catch:
  assumes "0 < landWidth st" and "0 < landDepth st"
    and "analyzeLand ev (landWidth st) (landDepth st) (neighborEastFloors st) (neighborWestFloors st)
           = (evs, Inl e)"
  shows "analyzePlot_earlier ev st =
           Completed
             (st\<lparr>step := Input, analysisResult := None, errorMessage := Some MsgServiceRetry,
                 currentLoadingMessage :=
                   loadingMessageAfter loadingMessages_earlier (ticks ev)\<rparr>)
             ([SetInterval] @ evs @ [ConsoleError ''Error analyzing land:'' e, ClearInterval])"
  using assms by (simp add: analyzePlot_earlier_def Let_def)

text \<open>
  C5. When the call of \<open>analyzeLand\<close> that \<open>analyzePlot\<close> makes fails, \<open>analyzePlot\<close>
  completes with the step at \<open>Input\<close>, an error message set and no analysis result,
  whatever result the component held before. Both revisions of the component.
\<close>

theorem analyzePlot_failure:
  "(final_dimensions st = Inr (w, d)
      \<and> snd (analyzeLand ev w d (neighborEastFloors st) (neighborWestFloors st)) = Inl e
    \<longrightarrow> (\<exists>st' evs. analyzePlot ev st = Completed st' evs \<and> step st' = Input
            \<and> errorMessage st' = Some MsgServiceError \<and> analysisResult st' = None))
   \<and> (0 < landWidth st \<and> 0 < landDepth st
      \<and> snd (analyzeLand ev (landWidth st) (landDepth st)
                (neighborEastFloors st) (neighborWestFloors st)) = Inl e
    \<longrightarrow> (\<exists>st' evs. analyzePlot_earlier ev st = Completed st' evs \<and> step st' = Input
            \<and> errorMessage st' = Some MsgServiceRetry \<and> analysisResult st' = None))"
proof (intro conjI impI)
  assume "final_dimensions st = Inr (w, d)
      \<and> snd (analyzeLand ev w d (neighborEastFloors st) (neighborWestFloors st)) = Inl e"
  then obtain evs where "final_dimensions st = Inr (w, d)"
    and "analyzeLand ev w d (neighborEastFloors st) (neighborWestFloors st) = (evs, Inl e)"
    by (cases "analyzeLand ev w d (neighborEastFloors st) (neighborWestFloors st)") auto
  from analyzePlot_catch [OF this]
  show "\<exists>st' evs. analyzePlot ev st = Completed st' evs \<and> step st' = Input
            \<and> errorMessage st' = Some MsgServiceError \<and> analysisResult st' = None"
    by simp
next
  assume "0 < landWidth st \<and> 0 < landDepth st
      \<and> snd (analyzeLand ev (landWidth st) (landDepth st)
                (neighborEastFloors st) (neighborWestFloors st)) = Inl e"
  then obtain evs where "0 < landWidth st" and "0 < landDepth st"
    and "analyzeLand ev (landWidth st) (landDepth st)
           (neighborEastFloors st) (neighborWestFloors st) = (evs, Inl e)"
    by (cases "analyzeLand ev (landWidth st) (landDepth st)
                 (neighborEastFloors st) (neighborWestFloors st)") auto
  from analyzePlot_earlier_catch [OF this]
  show "\<exists>st' evs. analyzePlot_earlier ev st = Completed st' evs \<and> step st' = Input
            \<and> errorMessage st' = Some MsgServiceRetry \<and> analysisResult st' = None"
    by simp
qed

lemma showing_result_dimensions: "final_dimensions showing_result = Inr (10, 20)"
  by (simp add: final_dimensions_def showing_result_def initial_def)

lemma analyzeLand_offline: "snd (analyzeLand env_offline w d nw ne) = Inl failed_response"
  by (simp add: analyzeLand_def analyzeLand_try_def env_offline_def Let_def)

text \<open>A component showing the three-floor result, analysed again with the service unreachable.\<close>

theorem analyzePlot_failure_witness:
  "analysisResult showing_result = Some reply_result
   \<and> (\<exists>st' evs. analyzePlot env_offline showing_result = Completed st' evs \<and> step st' = Input
          \<and> errorMessage st' = Some MsgServiceError \<and> analysisResult st' = None)
   \<and> (\<exists>st' evs. analyzePlot_earlier env_offline showing_result = Completed st' evs
          \<and> step st' = Input \<and> errorMessage st' = Some MsgServiceRetry
          \<and> analysisResult st' = None)"
proof -
  have n: "neighborEastFloors showing_result = 2" "neighborWestFloors showing_result = 2"
    "landWidth showing_result = 10" "landDepth showing_result = 20"
    by (simp_all add: showing_result_def initial_def)
  have a: "final_dimensions showing_result = Inr (10, 20)
      \<and> snd (analyzeLand env_offline 10 20 (neighborEastFloors showing_result)
                (neighborWestFloors showing_result)) = Inl failed_response"
    by (simp add: showing_result_dimensions analyzeLand_offline)
  have b: "0 < landWidth showing_result \<and> 0 < landDepth showing_result
      \<and> snd (analyzeLand env_offline (landWidth showing_result) (landDepth showing_result)
                (neighborEastFloors showing_result) (neighborWestFloors showing_result))
          = Inl failed_response"
    by (simp add: n analyzeLand_offline)
  have r: "analysisResult showing_result = Some reply_result"
    by (simp add: showing_result_def)
  from analyzePlot_failure [of showing_result 10 20 env_offline failed_response] a b r
  show ?thesis
    by blast
qed

subsection \<open>The request of analyzePlot\<close>

lemma requests_append: "requests (xs @ ys) = requests xs @ requests ys"
  by (induction xs rule: requests.induct) simp_all

lemma requests_analyzeLand:
  "requests (fst (analyzeLand ev w d nw ne)) = [analyzeLand_request w d nw ne]"
  by (simp add: analyzeLand_def Let_def split: sum.splits)

lemma requests_analyzePlot:
  assumes "final_dimensions st = Inr (w, d)"
  shows "requests (events_of (analyzePlot ev st))
           = [analyzeLand_request w d (neighborEastFloors st) (neighborWestFloors st)]"
proof (cases "analyzeLand ev w d (neighborEastFloors st) (neighborWestFloors st)")
  case (Pair evs res)
  with requests_analyzeLand [of ev w d "neighborEastFloors st" "neighborWestFloors st"]
  have "requests evs = [analyzeLand_request w d (neighborEastFloors st) (neighborWestFloors st)]"
    by simp
  with assms Pair show ?thesis
    by (simp add: analyzePlot_def Let_def requests_append split: sum.splits option.splits)
qed

lemma requests_analyzePlot_earlier:
  assumes "0 < landWidth st" and "0 < landDepth st"
  shows "requests (events_of (analyzePlot_earlier ev st))
           = [analyzeLand_request (landWidth st) (landDepth st)
                (neighborEastFloors st) (neighborWestFloors st)]"
proof (cases "analyzeLand ev (landWidth st) (landDepth st)
                (neighborEastFloors st) (neighborWestFloors st)")
  case (Pair evs res)
  with requests_analyzeLand
         [of ev "landWidth st" "landDepth st" "neighborEastFloors st" "neighborWestFloors st"]
  have "requests evs = [analyzeLand_request (landWidth st) (landDepth st)
                          (neighborEastFloors st) (neighborWestFloors st)]"
    by simp
  with assms Pair show ?thesis
    by (simp add: analyzePlot_earlier_def Let_def requests_append split: sum.splits option.splits)
qed

lemma prompt_neighbor_lines:
  "\<exists>a b z. contents (analyzeLand_request w d nw ne)
             = a @ [Lit (b @ ''- West Neighbor: ''), Num nw,
                    Lit ('' floors. This affects lighting and privacy on the west side.'' @ nl
                         @ ''- East Neighbor: ''),
                    Num ne] @ z"
proof (intro exI)
  show "contents (analyzeLand_request w d nw ne)
          = [Lit (prompt_role @ ''**Land Dimensions:**'' @ nl @ ''- Width (along street): ''),
             Num w, Lit ('' meters'' @ nl @ ''- Depth: ''), Num d]
            @ [Lit (('' meters'' @ nl @ nl @ ''**Neighborhood Context:**'' @ nl)
                    @ ''- West Neighbor: ''),
               Num nw,
               Lit ('' floors. This affects lighting and privacy on the west side.'' @ nl
                    @ ''- East Neighbor: ''),
               Num ne]
            @ [Lit ('' floors. This affects lighting and privacy on the east side.'' @ nl
                    @ prompt_instructions)]"
    by (simp add: analyzeLand_request_def build_prompt_def)
qed

text \<open>
  C6. Whenever \<open>analyzePlot\<close> reaches the model request, it makes exactly one request,
  built with the east-neighbour signal as \<open>analyzeLand\<close>'s \<open>neighborWestFloors\<close> argument and
  the west-neighbour signal as its \<open>neighborEastFloors\<close> argument; in the prompt of that
  request the number after "West Neighbor:" is the east-neighbour signal and the number
  after "East Neighbor:" is the west-neighbour signal. Both revisions of the component.
\<close>

theorem analyzePlot_neighbor_arguments:
  "(final_dimensions st = Inr (w, d)
    \<longrightarrow> requests (events_of (analyzePlot ev st))
          = [analyzeLand_request w d (neighborEastFloors st) (neighborWestFloors st)])
   \<and> (0 < landWidth st \<and> 0 < landDepth st
    \<longrightarrow> requests (events_of (analyzePlot_earlier ev st))
          = [analyzeLand_request (landWidth st) (landDepth st)
               (neighborEastFloors st) (neighborWestFloors st)])
   \<and> (\<exists>a b z. contents (analyzeLand_request w d (neighborEastFloors st) (neighborWestFloors st))
                = a @ [Lit (b @ ''- West Neighbor: ''), Num (neighborEastFloors st),
                       Lit ('' floors. This affects lighting and privacy on the west side.'' @ nl
                            @ ''- East Neighbor: ''),
                       Num (neighborWestFloors st)] @ z)"
  using requests_analyzePlot requests_analyzePlot_earlier prompt_neighbor_lines by blast

text \<open>East neighbour of five floors, west neighbour of one: the prompt says the reverse.\<close>

theorem analyzePlot_neighbor_arguments_witness:
  "final_dimensions uneven_neighbors = Inr (10, 20)
   \<and> neighborEastFloors uneven_neighbors = 5 \<and> neighborWestFloors uneven_neighbors = 1
   \<and> requests (events_of (analyzePlot env_offline uneven_neighbors))
       = [analyzeLand_request 10 20 5 1]
   \<and> requests (events_of (analyzePlot_earlier env_offline uneven_neighbors))
       = [analyzeLand_request 10 20 5 1]
   \<and> (\<exists>a b z. contents (analyzeLand_request 10 20 5 1)
                = a @ [Lit (b @ ''- West Neighbor: ''), Num 5,
                       Lit ('' floors. This affects lighting and privacy on the west side.'' @ nl
                            @ ''- East Neighbor: ''),
                       Num 1] @ z)"
proof -
  have f: "final_dimensions uneven_neighbors = Inr (10, 20)"
    by (simp add: final_dimensions_def uneven_neighbors_def initial_def)
  have n: "neighborEastFloors uneven_neighbors = 5" "neighborWestFloors uneven_neighbors = 1"
    "landWidth uneven_neighbors = 10" "landDepth uneven_neighbors = 20"
    by (simp_all add: uneven_neighbors_def initial_def)
  from analyzePlot_neighbor_arguments [of uneven_neighbors 10 20 env_offline] f
  show ?thesis
    by (simp add: n)
qed

subsection \<open>The floor plan shown\<close>

lemma js_index_nat: "js_index xs (real i) = (if i < length xs then Some (xs ! i) else None)"
  by (simp add: js_index_def)

lemma js_index_beyond: "real (length xs) \<le> v \<Longrightarrow> js_index xs v = None"
proof -
  assume a: "real (length xs) \<le> v"
  then have "int (length xs) \<le> \<lfloor>v\<rfloor>"
    by (simp add: le_floor_iff)
  then have "\<not> nat \<lfloor>v\<rfloor> < length xs"
    by linarith
  then show ?thesis
    by (simp add: js_index_def)
qed

lemma js_index_member: "js_index xs v = Some p \<Longrightarrow> p \<in> set xs"
  by (auto simp: js_index_def split: if_splits)

text \<open>
  A result that \<open>analyzePlot\<close> stores after a request has passed the validation of the
  service, so its list of floor plans is not empty.
\<close>

lemma analyzePlot_result_nonempty:
  assumes "final_dimensions st = Inr (w, d)" and "analyzePlot ev st = Completed st' evs"
    and "analysisResult st' = Some r"
  shows "floorPlans r \<noteq> []"
proof (cases "analyzeLand ev w d (neighborEastFloors st) (neighborWestFloors st)")
  case (Pair es res)
  show ?thesis
  proof (cases res)
    case (Inl e)
    with assms Pair show ?thesis
      by (auto simp: analyzePlot_def Let_def)
  next
    case (Inr reply)
    with Pair have "snd (analyzeLand ev w d (neighborEastFloors st) (neighborWestFloors st))
                      = Inr reply"
      by simp
    then have v: "basic_validation reply = Inr reply"
      using analyzeLand_Inr by blast
    from assms Pair Inr have "as_AnalysisResult reply = Some r"
      by (auto simp: analyzePlot_def Let_def split: option.splits)
    with basic_validation_Inr [OF v] as_AnalysisResult_floorPlans show ?thesis
      by blast
  qed
qed

text \<open>
  C7. Whenever the analysis result is not null and its list of floor plans is not empty,
  \<open>currentFloorPlan\<close> is a floor plan of that list: the one at position \<open>selectedFloor\<close>
  when that is an index of the list, and the first one whenever \<open>selectedFloor\<close> is at
  or beyond the number of floor plans.
\<close>

theorem currentFloorPlan_present:
  assumes "analysisResult st = Some r" and "floorPlans r \<noteq> []"
  shows "(\<exists>p \<in> set (floorPlans r). currentFloorPlan st = Obj p)
         \<and> (\<forall>i < length (floorPlans r).
               selectedFloor st = real i \<longrightarrow> currentFloorPlan st = Obj (floorPlans r ! i))
         \<and> (real (length (floorPlans r)) \<le> selectedFloor st
               \<longrightarrow> currentFloorPlan st = Obj (floorPlans r ! 0))"
proof (intro conjI allI impI)
  from assms(2) have first: "js_index (floorPlans r) 0 = Some (floorPlans r ! 0)"
    by (simp add: js_index_def)
  show "\<exists>p \<in> set (floorPlans r). currentFloorPlan st = Obj p"
  proof (cases "js_index (floorPlans r) (selectedFloor st)")
    case None
    with assms first show ?thesis
      by (simp add: currentFloorPlan_def)
  next
    case (Some p)
    with assms js_index_member [OF Some] show ?thesis
      by (simp add: currentFloorPlan_def)
  qed
  show "currentFloorPlan st = Obj (floorPlans r ! i)"
    if "i < length (floorPlans r)" and "selectedFloor st = real i" for i
    using that assms by (simp add: currentFloorPlan_def js_index_nat)
  show "currentFloorPlan st = Obj (floorPlans r ! 0)"
    if "real (length (floorPlans r)) \<le> selectedFloor st"
    using assms first js_index_beyond [OF that] by (simp add: currentFloorPlan_def)
qed

text \<open>The three-floor result with floor 1 selected, and with floor 7 selected.\<close>

theorem currentFloorPlan_present_witness:
  "analysisResult (showing reply_result 7) = Some reply_result \<and> floorPlans reply_result \<noteq> []
   \<and> currentFloorPlan (showing reply_result 1) = Obj plan1
   \<and> currentFloorPlan (showing reply_result 7) = Obj plan0"
proof -
  have a: "analysisResult (showing reply_result v) = Some reply_result" for v
    by (simp add: showing_def)
  have b: "floorPlans reply_result \<noteq> []" "length (floorPlans reply_result) = 3"
    by (simp_all add: reply_result_def)
  have s: "selectedFloor (showing reply_result v) = v" for v
    by (simp add: showing_def)
  from currentFloorPlan_present [OF a b(1), of 1]
  have 1: "currentFloorPlan (showing reply_result 1) = Obj (floorPlans reply_result ! 1)"
    by (simp add: s b(2))
  from currentFloorPlan_present [OF a b(1), of 7]
  have 2: "currentFloorPlan (showing reply_result 7) = Obj (floorPlans reply_result ! 0)"
    by (simp add: s b(2))
  from 1 2 a b show ?thesis
    by (simp add: reply_result_def)
qed

text \<open>
  C10. \<open>currentFloorPlan\<close> selects by position: with \<open>selectedFloor = i\<close> inside the list
  it is the element at position \<open>i\<close>, and it stays the element at that position however
  the \<open>level\<close> fields of the plans are changed.
\<close>

theorem currentFloorPlan_by_position:
  assumes "analysisResult st = Some r" and "selectedFloor st = real i"
    and "i < length (floorPlans r)"
  shows "currentFloorPlan st = Obj (floorPlans r ! i)
         \<and> currentFloorPlan
             (st\<lparr>analysisResult :=
                   Some (r\<lparr>floorPlans := map (\<lambda>p. p\<lparr>level := f (level p)\<rparr>) (floorPlans r)\<rparr>)\<rparr>)
             = Obj ((floorPlans r ! i)\<lparr>level := f (level (floorPlans r ! i))\<rparr>)"
  using assms by (simp add: currentFloorPlan_def js_index_nat)

text \<open>Plans of levels 0 and 2 only: floor 1 selected shows the plan of level 2.\<close>

theorem currentFloorPlan_by_position_witness:
  "analysisResult (showing gapped_result 1) = Some gapped_result
   \<and> map level (floorPlans gapped_result) = [0, 2]
   \<and> currentFloorPlan (showing gapped_result 1) = Obj plan2
   \<and> level plan2 = 2"
proof -
  have a: "analysisResult (showing gapped_result 1) = Some gapped_result"
    "selectedFloor (showing gapped_result 1) = real 1"
    "1 < length (floorPlans gapped_result)"
    by (simp_all add: showing_def gapped_result_def)
  from currentFloorPlan_by_position [OF a]
  have "currentFloorPlan (showing gapped_result 1) = Obj (floorPlans gapped_result ! 1)"
    by simp
  with a show ?thesis
    by (simp add: gapped_result_def plan0_def plan2_def)
qed

subsection \<open>Invalid input\<close>

text \<open>
  C8. With fewer than three points in draw mode, or a width or depth that is not positive
  in numeric mode, \<open>analyzePlot\<close> only sets an error message: it makes no request, and the
  step and every other signal stay as they were. The earlier revision, which has numeric
  input only, does the same.
\<close>

theorem analyzePlot_invalid_input:
  "(inputType st = Draw \<and> length (polygonPoints st) < 3
    \<longrightarrow> analyzePlot ev st = Completed (st\<lparr>errorMessage := Some MsgThreePoints\<rparr>) [])
   \<and> (inputType st = Numeric \<and> (landWidth st \<le> 0 \<or> landDepth st \<le> 0)
    \<longrightarrow> analyzePlot ev st = Completed (st\<lparr>errorMessage := Some MsgValidDimensions\<rparr>) [])
   \<and> ((inputType st = Draw \<and> length (polygonPoints st) < 3)
      \<or> (inputType st = Numeric \<and> (landWidth st \<le> 0 \<or> landDepth st \<le> 0))
    \<longrightarrow> requests (events_of (analyzePlot ev st)) = []
        \<and> map_option step (final_state (analyzePlot ev st)) = Some (step st)
        \<and> (\<exists>msg. map_option errorMessage (final_state (analyzePlot ev st)) = Some (Some msg)))
   \<and> (landWidth st \<le> 0 \<or> landDepth st \<le> 0
    \<longrightarrow> analyzePlot_earlier ev st = Completed (st\<lparr>errorMessage := Some MsgValidDimensions\<rparr>) [])"
  by (auto simp: analyzePlot_def analyzePlot_earlier_def final_dimensions_def isDrawingValid_def)

text \<open>Two points drawn; a width of zero.\<close>

theorem analyzePlot_invalid_input_witness:
  "analyzePlot env_offline (drawing two_points)
     = Completed ((drawing two_points)\<lparr>errorMessage := Some MsgThreePoints\<rparr>) []
   \<and> step (drawing two_points) = Input
   \<and> requests (events_of (analyzePlot env_offline (drawing two_points))) = []
   \<and> analyzePlot env_offline (initial\<lparr>landWidth := 0\<rparr>)
       = Completed (initial\<lparr>landWidth := 0, errorMessage := Some MsgValidDimensions\<rparr>) []
   \<and> analyzePlot_earlier env_offline (initial\<lparr>landWidth := 0\<rparr>)
       = Completed (initial\<lparr>landWidth := 0, errorMessage := Some MsgValidDimensions\<rparr>) []"
proof -
  have a: "inputType (drawing two_points) = Draw \<and> length (polygonPoints (drawing two_points)) < 3"
    by (simp add: drawing_def two_points_def initial_def)
  have b: "inputType (initial\<lparr>landWidth := 0\<rparr>) = Numeric
           \<and> (landWidth (initial\<lparr>landWidth := 0\<rparr>) \<le> 0 \<or> landDepth (initial\<lparr>landWidth := 0\<rparr>) \<le> 0)"
    by (simp add: initial_def)
  have c: "step (drawing two_points) = Input"
    by (simp add: drawing_def initial_def)
  from analyzePlot_invalid_input [of "drawing two_points" env_offline] a
  have 1: "analyzePlot env_offline (drawing two_points)
             = Completed ((drawing two_points)\<lparr>errorMessage := Some MsgThreePoints\<rparr>) []"
    and 2: "requests (events_of (analyzePlot env_offline (drawing two_points))) = []"
    by blast+
  from analyzePlot_invalid_input [of "initial\<lparr>landWidth := 0\<rparr>" env_offline] b
  have 3: "analyzePlot env_offline (initial\<lparr>landWidth := 0\<rparr>)
       = Completed (initial\<lparr>landWidth := 0, errorMessage := Some MsgValidDimensions\<rparr>) []"
    and 4: "analyzePlot_earlier env_offline (initial\<lparr>landWidth := 0\<rparr>)
       = Completed (initial\<lparr>landWidth := 0, errorMessage := Some MsgValidDimensions\<rparr>) []"
    by blast+
  from 1 2 3 4 c show ?thesis
    by blast
qed

subsection \<open>The drawn polygon\<close>

lemma slice_drop_last: "slice xs 0 (- 1) = butlast xs"
proof -
  have "nat (max (int (length xs) - 1) 0) = length xs - 1"
    by linarith
  then show ?thesis
    by (simp add: slice_def slice_index_def Let_def butlast_conv_take)
qed

text \<open>
  C9. \<open>undoPoint\<close> removes exactly the last point of the polygon and keeps the others in
  order; \<open>resetDrawing\<close> leaves no point; the drawing is valid exactly when it has at
  least three points, so after \<open>resetDrawing\<close> it is not valid.
\<close>

theorem polygon_undo_reset:
  "fst (undoPoint st) = st\<lparr>polygonPoints := butlast (polygonPoints st)\<rparr>
   \<and> polygonPoints (fst (undoPoint (st\<lparr>polygonPoints := pts @ [p]\<rparr>))) = pts
   \<and> polygonPoints (fst (resetDrawing st)) = []
   \<and> isDrawingValid st = (3 \<le> length (polygonPoints st))
   \<and> \<not> isDrawingValid (fst (resetDrawing st))"
  by (simp add: undoPoint_def resetDrawing_def isDrawingValid_def slice_drop_last)

text \<open>A square of four points: undone it is its first three points; reset it is empty.\<close>

theorem polygon_undo_reset_witness:
  "polygonPoints (fst (undoPoint (drawing square))) = take 3 square
   \<and> length (polygonPoints (fst (undoPoint (drawing square)))) = 3
   \<and> isDrawingValid (fst (undoPoint (drawing square)))
   \<and> polygonPoints (fst (resetDrawing (drawing square))) = []
   \<and> \<not> isDrawingValid (fst (resetDrawing (drawing square)))"
proof -
  note p = polygon_undo_reset [of "drawing square" "[]" "\<lparr>point_x = 0, point_y = 0\<rparr>"]
  have "polygonPoints (drawing square) = square"
    by (simp add: drawing_def)
  with p show ?thesis
    by (simp add: square_def isDrawingValid_def)
qed

end
